theory Spec2Isabelle
  imports Main
begin

section \<open>The AirTable submission proxy (src/api/submit-form.js)\<close>

text \<open>
  The repository is one handler, \<open>submitToAirTable(req, res)\<close>. It answers the CORS
  preflight, rejects every method but POST and PATCH, and otherwise reshapes the request
  body into a record payload, drops the empty entries, sends the payload to AirTable with
  one \<open>fetch\<close> (PATCH when the body names a record, POST otherwise) and maps the reply to
  a JSON response. Everything thrown between the first read of the body and the end of
  the reply handling is caught by one \<open>try/catch\<close> and answered with status 500.
\<close>

subsection \<open>JavaScript values\<close>

text \<open>
  The values the handler sees are those of a parsed JSON text, and \<open>undefined\<close> (a key
  that is absent, or a request without a parsed body). An object is its list of entries
  in insertion order. The handler never computes with a number: it tests one for
  truthiness and converts one to a string, so a number is kept as its rendering
  \<open>String(n)\<close> (\<open>0\<close> and \<open>-0\<close> both render as \<open>0\<close>).
\<close>

datatype jsval =
    JUndefined
  | JNull
  | JBool bool
  | JNum string
  | JStr string
  | JArr "jsval list"
  | JObj "(string \<times> jsval) list"

type_synonym obj = "(string \<times> jsval) list"

text \<open>What the handler throws or catches: an \<open>Error\<close> object, with its message.\<close>

datatype js_error = Error string | TypeError string | SyntaxError string

fun message :: "js_error \<Rightarrow> string" where
  "message (Error m) = m"
| "message (TypeError m) = m"
| "message (SyntaxError m) = m"

text \<open>\<open>typeof v === 'boolean'\<close>.\<close>

fun is_boolean :: "jsval \<Rightarrow> bool" where
  "is_boolean (JBool b) = True"
| "is_boolean v = False"

text \<open>
  ToBoolean: \<open>undefined\<close>, \<open>null\<close>, \<open>false\<close>, \<open>0\<close>, \<open>NaN\<close> and the empty string are
  falsy, every other value (every array and object too) is truthy.
\<close>

fun truthy :: "jsval \<Rightarrow> bool" where
  "truthy JUndefined = False"
| "truthy JNull = False"
| "truthy (JBool b) = b"
| "truthy (JNum n) = (n \<noteq> ''0'' \<and> n \<noteq> ''NaN'')"
| "truthy (JStr s) = (s \<noteq> [])"
| "truthy (JArr xs) = True"
| "truthy (JObj kvs) = True"

text \<open>\<open>a || b\<close> and \<open>a && b\<close> give one of their operands.\<close>

definition js_or :: "jsval \<Rightarrow> jsval \<Rightarrow> jsval" where
  "js_or a b = (if truthy a then a else b)"

definition js_and :: "jsval \<Rightarrow> jsval \<Rightarrow> jsval" where
  "js_and a b = (if truthy a then b else a)"

text \<open>
  Reading a property, \<open>v.k\<close>. On \<open>undefined\<close> and \<open>null\<close> it throws a TypeError (the
  message is V8's). On an object it gives the entry, or \<open>undefined\<close>; on a string, a
  number, a boolean or an array it gives \<open>undefined\<close>. The handler reads fixed names
  only (the form's field names, \<open>error\<close>, \<open>message\<close>, \<open>id\<close>), none of which is a
  property that a prototype provides.
\<close>

fun get_prop :: "jsval \<Rightarrow> string \<Rightarrow> js_error + jsval" where
  "get_prop JUndefined k =
     Inl (TypeError (''Cannot read properties of undefined (reading '' @ [CHR 0x27] @ k @ [CHR 0x27] @ '')''))"
| "get_prop JNull k =
     Inl (TypeError (''Cannot read properties of null (reading '' @ [CHR 0x27] @ k @ [CHR 0x27] @ '')''))"
| "get_prop (JObj kvs) k = Inr (case map_of kvs k of None \<Rightarrow> JUndefined | Some v \<Rightarrow> v)"
| "get_prop v k = Inr JUndefined"

text \<open>
  The value of a read that does not throw, and of \<open>v?.k\<close> (\<open>undefined\<close> when
  \<open>v\<close> is \<open>undefined\<close> or \<open>null\<close>). The handler below reads with \<open>get_prop\<close>;
  these two name the values in the statements.
\<close>

definition read_prop :: "jsval \<Rightarrow> string \<Rightarrow> jsval" where
  "read_prop v k = (case get_prop v k of Inl e \<Rightarrow> JUndefined | Inr x \<Rightarrow> x)"

definition opt_prop :: "jsval \<Rightarrow> string \<Rightarrow> jsval" where
  "opt_prop v k = (if v = JUndefined \<or> v = JNull then JUndefined else read_prop v k)"

text \<open>
  ToString, as a template literal and \<open>new Error(m)\<close> apply it. An array is joined with
  commas, \<open>undefined\<close> and \<open>null\<close> elements giving the empty string. An object of a JSON
  text gives \<open>[object Object]\<close>, unless it has a key \<open>toString\<close> of its own: that entry
  is not callable, \<open>valueOf\<close> then gives no primitive, and the conversion throws.
\<close>

fun js_to_string :: "jsval \<Rightarrow> js_error + string"
  and js_join :: "jsval list \<Rightarrow> js_error + string" where
  "js_to_string JUndefined = Inr ''undefined''"
| "js_to_string JNull = Inr ''null''"
| "js_to_string (JBool b) = Inr (if b then ''true'' else ''false'')"
| "js_to_string (JNum n) = Inr n"
| "js_to_string (JStr s) = Inr s"
| "js_to_string (JArr xs) = js_join xs"
| "js_to_string (JObj kvs) =
     (if map_of kvs ''toString'' = None then Inr ''[object Object]''
      else Inl (TypeError ''Cannot convert object to primitive value''))"
| "js_join [] = Inr []"
| "js_join (x # xs) =
     (case (if x = JUndefined \<or> x = JNull then Inr [] else js_to_string x) of
        Inl e \<Rightarrow> Inl e
      | Inr s \<Rightarrow>
          (if xs = [] then Inr s
           else case js_join xs of Inl e \<Rightarrow> Inl e | Inr t \<Rightarrow> Inr (s @ '','' @ t)))"

text \<open>
  \<open>encodeURIComponent\<close> on a string of bytes: the unreserved characters stay, every
  other byte becomes \<open>%XX\<close>.
\<close>

definition unreserved :: "char \<Rightarrow> bool" where
  "unreserved c =
     (c \<in> set ''ABCDEFGHIJKLMNOPQRSTUVWXYZabcdefghijklmnopqrstuvwxyz0123456789-_.!~*()''
      \<or> c = CHR 0x27)"

definition hex_digit :: "nat \<Rightarrow> char" where
  "hex_digit n = ''0123456789ABCDEF'' ! (n mod 16)"

definition encode_char :: "char \<Rightarrow> string" where
  "encode_char c =
     (if unreserved c then [c]
      else [CHR ''%'', hex_digit (of_char c div 16), hex_digit (of_char c)])"

definition encodeURIComponent :: "string \<Rightarrow> string" where
  "encodeURIComponent s = concat (map encode_char s)"

subsection \<open>Request, configuration, outbound call, reply, response\<close>

record request =
  "method" :: string
  body :: jsval

text \<open>\<open>process.env\<close>: a variable is a string, or not set.\<close>

record environment =
  AIRTABLE_API_KEY :: "string option"
  AIRTABLE_BASE_ID :: "string option"

text \<open>
  One call of \<open>fetch\<close>. \<open>call_body\<close> is the value handed to \<open>JSON.stringify\<close>.
\<close>

record fetch_call =
  call_url :: string
  call_method :: string
  call_headers :: "(string \<times> string) list"
  call_body :: jsval

text \<open>
  What \<open>fetch\<close> gives back: it rejects, or it resolves to a response with its \<open>ok\<close>
  flag (status 200 to 299) and what \<open>response.json()\<close> resolves to or rejects with. The
  handler calls \<open>fetch\<close> at most once, so the reply is one value.
\<close>

record fetch_response =
  ok :: bool
  json :: "js_error + jsval"

type_synonym upstream = "js_error + fetch_response"

text \<open>
  The response written through \<open>res\<close>: \<open>res.status(c).end()\<close> sends no body,
  \<open>res.status(c).json(v)\<close> sends \<open>v\<close>.
\<close>

datatype response_body = NoBody | JsonBody jsval

record response =
  status :: nat
  headers :: "(string \<times> string) list"
  content :: response_body

datatype log_entry = LogValue string jsval | LogError string js_error

record outcome =
  sent :: response
  calls :: "fetch_call list"
  logged :: "log_entry list"

definition cors_headers :: "(string \<times> string) list" where
  "cors_headers =
     [(''Access-Control-Allow-Origin'', ''*''),
      (''Access-Control-Allow-Methods'', ''POST, PATCH, OPTIONS''),
      (''Access-Control-Allow-Headers'', ''Content-Type'')]"

definition res_end :: "nat \<Rightarrow> response" where
  "res_end c = \<lparr>status = c, headers = cors_headers, content = NoBody\<rparr>"

definition res_json :: "nat \<Rightarrow> jsval \<Rightarrow> response" where
  "res_json c v = \<lparr>status = c, headers = cors_headers, content = JsonBody v\<rparr>"

subsection \<open>Field mapping and filtering (lines 49 to 132)\<close>

text \<open>
  An object literal evaluates its property values from left to right; the first one that
  throws ends the evaluation. \<open>a || d\<close> and \<open>a?.k\<close> on an expression \<open>a\<close> that may
  have thrown.
\<close>

fun object_literal :: "(string \<times> (js_error + jsval)) list \<Rightarrow> js_error + obj" where
  "object_literal [] = Inr []"
| "object_literal ((k, Inl e) # rest) = Inl e"
| "object_literal ((k, Inr v) # rest) =
     (case object_literal rest of Inl e \<Rightarrow> Inl e | Inr kvs \<Rightarrow> Inr ((k, v) # kvs))"

definition or_default :: "js_error + jsval \<Rightarrow> jsval \<Rightarrow> js_error + jsval" where
  "or_default a d = (case a of Inl e \<Rightarrow> Inl e | Inr v \<Rightarrow> Inr (js_or v d))"

definition opt_chain :: "js_error + jsval \<Rightarrow> string \<Rightarrow> js_error + jsval" where
  "opt_chain a k =
     (case a of
        Inl e \<Rightarrow> Inl e
      | Inr v \<Rightarrow> if v = JUndefined \<or> v = JNull then Inr JUndefined else get_prop v k)"

text \<open>The entries of one part of a literal followed by those of the next.\<close>

definition then_fields :: "js_error + obj \<Rightarrow> js_error + obj \<Rightarrow> js_error + obj" where
  "then_fields a b =
     (case a of
        Inl e \<Rightarrow> Inl e
      | Inr xs \<Rightarrow> (case b of Inl e \<Rightarrow> Inl e | Inr ys \<Rightarrow> Inr (xs @ ys)))"

text \<open>
  \<open>rawPayload\<close>, part by part in the order of the object literal of lines 49 to 115. A
  spread \<open>...(c && {...})\<close> adds the entries when \<open>c\<close> holds and nothing when it is
  \<open>false\<close>.
\<close>

definition contact_fields :: "jsval \<Rightarrow> js_error + obj" where
  "contact_fields formData =
     object_literal
       [(''first_name'', get_prop formData ''first_name''),
        (''last_name'', get_prop formData ''last_name''),
        (''email'', get_prop formData ''email''),
        (''phone'', get_prop formData ''phone''),
        (''company_name'', get_prop formData ''company_name''),
        (''customer_type'', get_prop formData ''customer_type''),
        (''consent_checkbox'', get_prop formData ''consent_checkbox''),
        (''direction'', get_prop formData ''direction'')]"

definition import_fields :: "jsval \<Rightarrow> js_error + obj" where
  "import_fields formData =
     (case get_prop formData ''direction'' of
        Inl e \<Rightarrow> Inl e
      | Inr direction \<Rightarrow>
          if direction = JStr ''import'' then
            object_literal
              [(''goods_location'', get_prop formData ''goods_location''),
               (''arrival_method'', get_prop formData ''arrival_method''),
               (''arrival_timeline'', get_prop formData ''arrival_timeline''),
               (''customs_code_status'', get_prop formData ''customs_code_status''),
               (''customs_code_number'', get_prop formData ''customs_code_number'')]
          else Inr [])"

definition export_fields :: "jsval \<Rightarrow> js_error + obj" where
  "export_fields formData =
     (case get_prop formData ''direction'' of
        Inl e \<Rightarrow> Inl e
      | Inr direction \<Rightarrow>
          if direction = JStr ''export'' then
            object_literal
              [(''export_service_needed'', get_prop formData ''export_service_needed''),
               (''destination_country'', get_prop formData ''destination_country'')]
          else Inr [])"

definition service_fields :: "jsval \<Rightarrow> js_error + obj" where
  "service_fields formData =
     object_literal
       [(''shipping_payment'', get_prop formData ''shipping_payment''),
        (''local_delivery'', get_prop formData ''local_delivery''),
        (''needs_port_delivery'', get_prop formData ''needs_port_delivery''),
        (''delivery_address'', get_prop formData ''delivery_address''),
        (''shipment_method'', get_prop formData ''shipment_method''),
        (''container_type'', get_prop formData ''container_type''),
        (''air_weight_category'', get_prop formData ''air_weight_category'')]"

definition cargo_fields :: "jsval \<Rightarrow> js_error + obj" where
  "cargo_fields formData =
     object_literal
       [(''cargo_type'', get_prop formData ''cargo_type''),
        (''cargo_details'', get_prop formData ''cargo_details''),
        (''other_cargo_description'', get_prop formData ''other_cargo_description''),
        (''personal_item_condition'', get_prop formData ''personal_item_condition''),
        (''personal_item_mixed'',
           or_default (get_prop formData ''personal_item_mixed'') (JBool False)),
        (''requires_temperature_control'',
           or_default (get_prop formData ''requires_temperature_control'') (JBool False)),
        (''packing_info_combined'', get_prop formData ''packing_info_combined'')]"

definition document_fields :: "jsval \<Rightarrow> js_error + obj" where
  "document_fields formData =
     object_literal
       [(''air_waybill_status'',
           opt_chain (get_prop formData ''document_status'') ''air_waybill''),
        (''bill_of_lading_status'',
           opt_chain (get_prop formData ''document_status'') ''bill_of_lading''),
        (''courier_receipt_status'',
           opt_chain (get_prop formData ''document_status'') ''courier_receipt''),
        (''commercial_invoice_status'',
           opt_chain (get_prop formData ''document_status'') ''commercial_invoice''),
        (''packing_list_status'',
           opt_chain (get_prop formData ''document_status'') ''packing_list''),
        (''export_declaration_status'',
           opt_chain (get_prop formData ''document_status'') ''export_declaration''),
        (''msds_status'', opt_chain (get_prop formData ''document_status'') ''msds'')]"

definition system_fields :: "jsval \<Rightarrow> js_error + obj" where
  "system_fields formData =
     object_literal
       [(''status'', or_default (get_prop formData ''status'') (JStr ''completed'')),
        (''session_id'', get_prop formData ''session_id''),
        (''reminder_sent'', Inr (JBool False)),
        (''follow_up_sent'', Inr (JBool False)),
        (''sales_manager_notified'', Inr (JBool False)),
        (''email_sequence_stage'', Inr (JStr ''none''))]"

definition rawPayload :: "jsval \<Rightarrow> js_error + obj" where
  "rawPayload formData =
     then_fields (contact_fields formData)
       (then_fields (import_fields formData)
          (then_fields (export_fields formData)
             (then_fields (service_fields formData)
                (then_fields (cargo_fields formData)
                   (then_fields (document_fields formData) (system_fields formData))))))"

text \<open>
  The filter of line 125, and the loop of lines 119 to 128 over
  \<open>Object.entries(rawPayload)\<close>. \<open>cleanedFields[key] = value\<close> overwrites the entry of
  a key that is there and appends a new key.
\<close>

definition keep :: "jsval \<Rightarrow> bool" where
  "keep v = (is_boolean v \<or> (v \<noteq> JStr [] \<and> v \<noteq> JUndefined \<and> v \<noteq> JNull))"

fun obj_set :: "obj \<Rightarrow> string \<Rightarrow> jsval \<Rightarrow> obj" where
  "obj_set [] k v = [(k, v)]"
| "obj_set ((k', v') # kvs) k v =
     (if k' = k then (k, v) # kvs else (k', v') # obj_set kvs k v)"

fun clean_loop :: "obj \<Rightarrow> obj \<Rightarrow> obj" where
  "clean_loop cleaned [] = cleaned"
| "clean_loop cleaned ((k, v) # entries) =
     clean_loop (if keep v then obj_set cleaned k v else cleaned) entries"

definition cleanedFields :: "jsval \<Rightarrow> js_error + obj" where
  "cleanedFields formData =
     (case rawPayload formData of
        Inl e \<Rightarrow> Inl e
      | Inr raw \<Rightarrow> Inr (clean_loop [] raw))"

definition airtablePayload :: "obj \<Rightarrow> jsval" where
  "airtablePayload cleaned = JObj [(''fields'', JObj cleaned)]"

text \<open>
  For the properties below: the inbound value that the entry of a payload key is made
  from (\<open>document_status?.k\<close> for the seven document keys, \<open>formData[key]\<close> for the
  others), and the three values that the filter drops.
\<close>

definition document_status_keys :: "(string \<times> string) list" where
  "document_status_keys =
     [(''air_waybill_status'', ''air_waybill''),
      (''bill_of_lading_status'', ''bill_of_lading''),
      (''courier_receipt_status'', ''courier_receipt''),
      (''commercial_invoice_status'', ''commercial_invoice''),
      (''packing_list_status'', ''packing_list''),
      (''export_declaration_status'', ''export_declaration''),
      (''msds_status'', ''msds'')]"

definition inbound_value :: "jsval \<Rightarrow> string \<Rightarrow> jsval" where
  "inbound_value formData key =
     (case map_of document_status_keys key of
        None \<Rightarrow> read_prop formData key
      | Some sub \<Rightarrow> opt_prop (read_prop formData ''document_status'') sub)"

definition empty_value :: "jsval \<Rightarrow> bool" where
  "empty_value v = (v = JStr [] \<or> v = JUndefined \<or> v = JNull)"

subsection \<open>The handler (lines 16 to 171)\<close>

text \<open>Lines 40 to 46: the credentials. \<open>!AIRTABLE_API_KEY\<close> holds for a variable that
  is not set and for the empty string.\<close>

definition api_key_missing :: "environment \<Rightarrow> bool" where
  "api_key_missing env = (case AIRTABLE_API_KEY env of None \<Rightarrow> True | Some k \<Rightarrow> k = [])"

definition api_key :: "environment \<Rightarrow> string" where
  "api_key env = (case AIRTABLE_API_KEY env of None \<Rightarrow> ''undefined'' | Some k \<Rightarrow> k)"

definition base_id :: "environment \<Rightarrow> string" where
  "base_id env =
     (case AIRTABLE_BASE_ID env of
        None \<Rightarrow> ''appTll6JoqW04YvJs''
      | Some b \<Rightarrow> if b = [] then ''appTll6JoqW04YvJs'' else b)"

definition AIRTABLE_TABLE_NAME :: string where
  "AIRTABLE_TABLE_NAME = ''Form Submissions''"

text \<open>Lines 135 to 138: the choice between update and create, and the URL.\<close>

definition isUpdate :: "jsval \<Rightarrow> jsval" where
  "isUpdate recordId = js_and recordId (JBool (recordId \<noteq> JStr []))"

definition collection_url :: "environment \<Rightarrow> string" where
  "collection_url env =
     ''https://api.airtable.com/v0/'' @ base_id env @ ''/''
     @ encodeURIComponent AIRTABLE_TABLE_NAME"

definition airtableUrl :: "environment \<Rightarrow> jsval \<Rightarrow> js_error + string" where
  "airtableUrl env recordId =
     (if truthy (isUpdate recordId) then
        (case js_to_string recordId of
           Inl e \<Rightarrow> Inl e
         | Inr s \<Rightarrow> Inr (collection_url env @ ''/'' @ s))
      else Inr (collection_url env))"

text \<open>Lines 140 to 147: the argument of \<open>fetch\<close>.\<close>

definition fetch_request :: "environment \<Rightarrow> jsval \<Rightarrow> string \<Rightarrow> obj \<Rightarrow> fetch_call" where
  "fetch_request env recordId url cleaned =
     \<lparr>call_url = url,
      call_method = (if truthy (isUpdate recordId) then ''PATCH'' else ''POST''),
      call_headers =
        [(''Authorization'', ''Bearer '' @ api_key env),
         (''Content-Type'', ''application/json'')],
      call_body = airtablePayload cleaned\<rparr>"

text \<open>
  Lines 149 to 162: what the handler does with the reply of \<open>fetch\<close>. The result is the
  error thrown or the response sent, with what \<open>console.error\<close> has printed.
\<close>

definition handle_reply :: "upstream \<Rightarrow> (js_error + response) \<times> log_entry list" where
  "handle_reply up =
     (case up of
        Inl e \<Rightarrow> (Inl e, [])
      | Inr reply \<Rightarrow>
          if ok reply then
            (case json reply of
               Inl e \<Rightarrow> (Inl e, [])
             | Inr result \<Rightarrow>
                 (case get_prop result ''id'' of
                    Inl e \<Rightarrow> (Inl e, [])
                  | Inr record_id \<Rightarrow>
                      (Inr (res_json 200
                         (JObj [(''success'', JBool True),
                                (''recordId'', record_id),
                                (''message'', JStr ''Form submitted successfully'')])), [])))
          else
            (case json reply of
               Inl e \<Rightarrow> (Inl e, [])
             | Inr errorData \<Rightarrow>
                 (case get_prop errorData ''error'' of
                    Inl e \<Rightarrow> (Inl e, [LogValue ''AirTable API Error:'' errorData])
                  | Inr err \<Rightarrow>
                      (case js_to_string
                              (js_or (opt_prop err ''message'')
                                 (JStr ''Failed to submit to AirTable'')) of
                         Inl e \<Rightarrow> (Inl e, [LogValue ''AirTable API Error:'' errorData])
                       | Inr m \<Rightarrow> (Inl (Error m), [LogValue ''AirTable API Error:'' errorData])))))"

text \<open>Lines 35 to 163: the body of the \<open>try\<close>, with the calls of \<open>fetch\<close> it has made.\<close>

definition try_block ::
  "environment \<Rightarrow> upstream \<Rightarrow> jsval \<Rightarrow> (js_error + response) \<times> fetch_call list \<times> log_entry list" where
  "try_block env up formData =
     (case get_prop formData ''airtable_record_id'' of
        Inl e \<Rightarrow> (Inl e, [], [])
      | Inr recordId \<Rightarrow>
          if api_key_missing env then (Inl (Error ''AirTable API key not configured''), [], [])
          else
            (case cleanedFields formData of
               Inl e \<Rightarrow> (Inl e, [], [])
             | Inr cleaned \<Rightarrow>
                 (case airtableUrl env recordId of
                    Inl e \<Rightarrow> (Inl e, [], [])
                  | Inr url \<Rightarrow>
                      (fst (handle_reply up),
                       [fetch_request env recordId url cleaned],
                       snd (handle_reply up)))))"

text \<open>Lines 164 to 170: the \<open>catch\<close>.\<close>

definition catch_block :: "js_error \<Rightarrow> response" where
  "catch_block error =
     res_json 500
       (JObj [(''success'', JBool False),
              (''error'',
                 js_or (JStr (message error)) (JStr ''Internal server error''))])"

definition submitToAirTable :: "environment \<Rightarrow> upstream \<Rightarrow> request \<Rightarrow> outcome" where
  "submitToAirTable env up req =
     (if method req = ''OPTIONS'' then \<lparr>sent = res_end 200, calls = [], logged = []\<rparr>
      else if method req \<noteq> ''POST'' \<and> method req \<noteq> ''PATCH'' then
        \<lparr>sent = res_json 405
                  (JObj [(''success'', JBool False), (''error'', JStr ''Method not allowed'')]),
         calls = [], logged = []\<rparr>
      else
        (case try_block env up (body req) of
           (Inl error, cs, lg) \<Rightarrow>
             \<lparr>sent = catch_block error, calls = cs,
              logged = lg @ [LogError ''Submission error:'' error]\<rparr>
         | (Inr r, cs, lg) \<Rightarrow> \<lparr>sent = r, calls = cs, logged = lg\<rparr>))"

section \<open>Properties\<close>

subsection \<open>Reads, the raw payload and the filter\<close>

text \<open>
  A body that is neither \<open>undefined\<close> nor \<open>null\<close> is read without a throw, and the
  object literal of lines 49 to 115 then has the entries listed in
  \<open>rawPayload_readable\<close>. Their keys are distinct, so the loop of lines 119 to 128
  keeps exactly the entries that pass the test of line 125, in their order.
\<close>

lemma get_prop_readable:
  "v \<noteq> JUndefined \<Longrightarrow> v \<noteq> JNull \<Longrightarrow> get_prop v k = Inr (read_prop v k)"
  by (cases v) (simp_all add: read_prop_def)

lemma opt_chain_Inr: "opt_chain (Inr w) k = Inr (opt_prop w k)"
  by (cases w) (simp_all add: opt_chain_def opt_prop_def read_prop_def)

lemmas field_defs = contact_fields_def import_fields_def export_fields_def service_fields_def
  cargo_fields_def document_fields_def system_fields_def

lemma rawPayload_readable:
  assumes "formData \<noteq> JUndefined" "formData \<noteq> JNull"
  shows "rawPayload formData = Inr
    ([(''first_name'', read_prop formData ''first_name''),
      (''last_name'', read_prop formData ''last_name''),
      (''email'', read_prop formData ''email''),
      (''phone'', read_prop formData ''phone''),
      (''company_name'', read_prop formData ''company_name''),
      (''customer_type'', read_prop formData ''customer_type''),
      (''consent_checkbox'', read_prop formData ''consent_checkbox''),
      (''direction'', read_prop formData ''direction'')]
     @ (if read_prop formData ''direction'' = JStr ''import'' then
        [(''goods_location'', read_prop formData ''goods_location''),
         (''arrival_method'', read_prop formData ''arrival_method''),
         (''arrival_timeline'', read_prop formData ''arrival_timeline''),
         (''customs_code_status'', read_prop formData ''customs_code_status''),
         (''customs_code_number'', read_prop formData ''customs_code_number'')]
        else [])
     @ (if read_prop formData ''direction'' = JStr ''export'' then
        [(''export_service_needed'', read_prop formData ''export_service_needed''),
         (''destination_country'', read_prop formData ''destination_country'')]
        else [])
     @ [(''shipping_payment'', read_prop formData ''shipping_payment''),
      (''local_delivery'', read_prop formData ''local_delivery''),
      (''needs_port_delivery'', read_prop formData ''needs_port_delivery''),
      (''delivery_address'', read_prop formData ''delivery_address''),
      (''shipment_method'', read_prop formData ''shipment_method''),
      (''container_type'', read_prop formData ''container_type''),
      (''air_weight_category'', read_prop formData ''air_weight_category''),
      (''cargo_type'', read_prop formData ''cargo_type''),
      (''cargo_details'', read_prop formData ''cargo_details''),
      (''other_cargo_description'', read_prop formData ''other_cargo_description''),
      (''personal_item_condition'', read_prop formData ''personal_item_condition''),
      (''personal_item_mixed'', js_or (read_prop formData ''personal_item_mixed'') (JBool False)),
      (''requires_temperature_control'',
         js_or (read_prop formData ''requires_temperature_control'') (JBool False)),
      (''packing_info_combined'', read_prop formData ''packing_info_combined''),
      (''air_waybill_status'', opt_prop (read_prop formData ''document_status'') ''air_waybill''),
      (''bill_of_lading_status'', opt_prop (read_prop formData ''document_status'') ''bill_of_lading''),
      (''courier_receipt_status'', opt_prop (read_prop formData ''document_status'') ''courier_receipt''),
      (''commercial_invoice_status'',
         opt_prop (read_prop formData ''document_status'') ''commercial_invoice''),
      (''packing_list_status'', opt_prop (read_prop formData ''document_status'') ''packing_list''),
      (''export_declaration_status'',
         opt_prop (read_prop formData ''document_status'') ''export_declaration''),
      (''msds_status'', opt_prop (read_prop formData ''document_status'') ''msds''),
      (''status'', js_or (read_prop formData ''status'') (JStr ''completed'')),
      (''session_id'', read_prop formData ''session_id''),
      (''reminder_sent'', JBool False),
      (''follow_up_sent'', JBool False),
      (''sales_manager_notified'', JBool False),
      (''email_sequence_stage'', JStr ''none'')])"
  using assms
  by (simp add: rawPayload_def field_defs then_fields_def or_default_def
      get_prop_readable opt_chain_Inr)

lemma rawPayload_unreadable:
  "formData = JUndefined \<or> formData = JNull \<Longrightarrow> isl (rawPayload formData)"
  by (auto simp: rawPayload_def contact_fields_def then_fields_def)

lemma rawPayload_distinct:
  assumes "rawPayload formData = Inr raw"
  shows "distinct (map fst raw)"
proof -
  from assms rawPayload_unreadable [of formData]
  have r: "formData \<noteq> JUndefined" "formData \<noteq> JNull" by auto
  show ?thesis
    using assms unfolding rawPayload_readable [OF r]
    by (auto split: if_splits)
qed

lemma obj_set_fresh: "k \<notin> fst ` set kvs \<Longrightarrow> obj_set kvs k v = kvs @ [(k, v)]"
  by (induction kvs) auto

lemma clean_loop_filter:
  "distinct (map fst entries) \<Longrightarrow> fst ` set entries \<inter> fst ` set cleaned = {} \<Longrightarrow>
   clean_loop cleaned entries = cleaned @ filter (\<lambda>e. keep (snd e)) entries"
proof (induction entries arbitrary: cleaned)
  case Nil
  then show ?case by simp
next
  case (Cons e entries)
  obtain k v where e: "e = (k, v)" by (cases e)
  from Cons.prems e have fresh: "k \<notin> fst ` set cleaned" and d: "distinct (map fst entries)"
    and k: "k \<notin> fst ` set entries" by auto
  show ?case
  proof (cases "keep v")
    case True
    have "fst ` set entries \<inter> fst ` set (cleaned @ [(k, v)]) = {}"
      using Cons.prems k by auto
    with Cons.IH [OF d, of "cleaned @ [(k, v)]"] True e fresh show ?thesis
      by (simp add: obj_set_fresh)
  next
    case False
    have "fst ` set entries \<inter> fst ` set cleaned = {}" using Cons.prems by auto
    with Cons.IH [OF d, of cleaned] False e show ?thesis by simp
  qed
qed

lemma map_of_filter_snd:
  "distinct (map fst xs) \<Longrightarrow>
   map_of (filter (\<lambda>e. P (snd e)) xs) k =
     (case map_of xs k of None \<Rightarrow> None | Some v \<Rightarrow> if P v then Some v else None)"
  by (induction xs) (auto simp: map_of_eq_None_iff image_iff split: option.splits)

lemma cleanedFields_readable:
  "cleanedFields formData = Inr cleaned \<Longrightarrow> formData \<noteq> JUndefined \<and> formData \<noteq> JNull"
  using rawPayload_unreadable [of formData]
  by (auto simp: cleanedFields_def split: sum.splits)

lemma cleanedFields_lookup:
  assumes "cleanedFields formData = Inr cleaned" and raw: "rawPayload formData = Inr raw"
  shows "map_of cleaned k =
      (case map_of raw k of None \<Rightarrow> None | Some v \<Rightarrow> if keep v then Some v else None)"
proof -
  from assms have c: "cleaned = clean_loop [] raw"
    by (simp add: cleanedFields_def)
  have d: "distinct (map fst raw)" by (rule rawPayload_distinct [OF raw])
  from clean_loop_filter [OF d, of "[]"] c
  have "cleaned = filter (\<lambda>e. keep (snd e)) raw" by simp
  with d show ?thesis by (simp add: map_of_filter_snd)
qed

lemma cleanedFields_total:
  "formData \<noteq> JUndefined \<Longrightarrow> formData \<noteq> JNull \<Longrightarrow> \<exists>cleaned. cleanedFields formData = Inr cleaned"
  by (simp add: cleanedFields_def rawPayload_readable)

lemma keep_iff: "keep v = (\<not> empty_value v)"
  by (cases v) (simp_all add: keep_def empty_value_def)

lemma direction_cases [case_names import export neither]:
  obtains "d = JStr ''import''" | "d = JStr ''export''"
  | "d \<noteq> JStr ''import''" "d \<noteq> JStr ''export''"
  by blast

lemma cleaned_Some:
  assumes "cleanedFields formData = Inr cleaned" "rawPayload formData = Inr raw"
    and "map_of raw k = Some v"
  shows "map_of cleaned k = (if empty_value v then None else Some v)"
  using cleanedFields_lookup [OF assms(1,2), of k] assms(3) by (simp add: keep_iff)

lemma raw_defaults:
  assumes r: "formData \<noteq> JUndefined" "formData \<noteq> JNull"
    and raw: "rawPayload formData = Inr raw"
  shows "map_of raw ''personal_item_mixed'' =
           Some (js_or (read_prop formData ''personal_item_mixed'') (JBool False))
    \<and> map_of raw ''requires_temperature_control'' =
           Some (js_or (read_prop formData ''requires_temperature_control'') (JBool False))
    \<and> map_of raw ''status'' = Some (js_or (read_prop formData ''status'') (JStr ''completed''))
    \<and> map_of raw ''reminder_sent'' = Some (JBool False)
    \<and> map_of raw ''follow_up_sent'' = Some (JBool False)
    \<and> map_of raw ''sales_manager_notified'' = Some (JBool False)
    \<and> map_of raw ''email_sequence_stage'' = Some (JStr ''none'')"
proof -
  have e: "Inr raw = rawPayload formData" using raw by simp
  show ?thesis
  proof (cases "read_prop formData ''direction''" rule: direction_cases)
    case import
    show ?thesis using e unfolding rawPayload_readable [OF r] import by simp
  next
    case export
    show ?thesis using e unfolding rawPayload_readable [OF r] export by simp
  next
    case neither
    show ?thesis using e neither unfolding rawPayload_readable [OF r] by simp
  qed
qed

lemma raw_documents:
  assumes r: "formData \<noteq> JUndefined" "formData \<noteq> JNull"
    and raw: "rawPayload formData = Inr raw"
  shows "\<forall>(key, sub) \<in> set document_status_keys.
           map_of raw key = Some (opt_prop (read_prop formData ''document_status'') sub)"
proof -
  have e: "Inr raw = rawPayload formData" using raw by simp
  show ?thesis
  proof (cases "read_prop formData ''direction''" rule: direction_cases)
    case import
    show ?thesis using e unfolding rawPayload_readable [OF r] import
      by (simp add: document_status_keys_def)
  next
    case export
    show ?thesis using e unfolding rawPayload_readable [OF r] export
      by (simp add: document_status_keys_def)
  next
    case neither
    show ?thesis using e neither unfolding rawPayload_readable [OF r]
      by (simp add: document_status_keys_def)
  qed
qed

subsection \<open>The outbound record payload\<close>

text \<open>
  The payload is \<open>cleanedFields\<close>, the value of \<open>fields\<close> in the body of the call.
  Every raw entry is its inbound value, that value with a default, or a constant.
\<close>

lemmas payload_defs = cleanedFields_def rawPayload_def contact_fields_def import_fields_def
  export_fields_def service_fields_def cargo_fields_def document_fields_def system_fields_def
  then_fields_def or_default_def opt_chain_def js_or_def keep_def

lemma cleanedFields_raw:
  "cleanedFields formData = Inr cleaned \<Longrightarrow> \<exists>raw. rawPayload formData = Inr raw"
  by (auto simp: cleanedFields_def split: sum.splits)

lemma empty_value_falsy: "empty_value v \<Longrightarrow> \<not> truthy v"
  by (auto simp: empty_value_def)

lemma raw_entry_source_all:
  assumes r: "formData \<noteq> JUndefined" "formData \<noteq> JNull"
    and raw: "rawPayload formData = Inr raw"
  shows "\<forall>(key, v) \<in> set raw.
         v = inbound_value formData key
       \<or> v = js_or (inbound_value formData key) (JBool False)
       \<or> (key = ''status'' \<and> v = js_or (inbound_value formData key) (JStr ''completed''))
       \<or> v = JBool False
       \<or> (key = ''email_sequence_stage'' \<and> v = JStr ''none'')"
proof -
  have e: "Inr raw = rawPayload formData" using raw by simp
  show ?thesis
  proof (cases "read_prop formData ''direction''" rule: direction_cases)
    case import
    show ?thesis using e import unfolding rawPayload_readable [OF r]
      by (simp add: inbound_value_def document_status_keys_def)
  next
    case export
    show ?thesis using e export unfolding rawPayload_readable [OF r]
      by (simp add: inbound_value_def document_status_keys_def)
  next
    case neither
    show ?thesis using e neither unfolding rawPayload_readable [OF r]
      by (simp add: inbound_value_def document_status_keys_def)
  qed
qed

lemma raw_entry_source:
  assumes r: "formData \<noteq> JUndefined" "formData \<noteq> JNull"
    and raw: "rawPayload formData = Inr raw"
    and v: "map_of raw key = Some v"
  shows "v = inbound_value formData key
       \<or> v = js_or (inbound_value formData key) (JBool False)
       \<or> (key = ''status'' \<and> v = js_or (inbound_value formData key) (JStr ''completed''))
       \<or> v = JBool False
       \<or> (key = ''email_sequence_stage'' \<and> v = JStr ''none'')"
  using raw_entry_source_all [OF r raw] map_of_SomeD [OF v] by blast

text \<open>
  Claim C1, as amended. The outbound record payload contains no key whose inbound value
  was the empty string, \<open>undefined\<close> or \<open>null\<close>, except a key whose payload value is
  a boolean, the key \<open>status\<close> (which then holds the default \<open>completed\<close>) and the
  key \<open>email_sequence_stage\<close> (which always holds \<open>none\<close>).
\<close>

theorem no_empty_inbound:
  assumes c: "cleanedFields formData = Inr cleaned"
    and v: "map_of cleaned key = Some v"
    and i: "empty_value (inbound_value formData key)"
  shows "is_boolean v
       \<or> (key = ''status'' \<and> v = JStr ''completed'')
       \<or> (key = ''email_sequence_stage'' \<and> v = JStr ''none'')"
proof -
  from c have r: "formData \<noteq> JUndefined" "formData \<noteq> JNull"
    by (auto dest: cleanedFields_readable)
  from cleanedFields_raw [OF c] obtain raw where raw: "rawPayload formData = Inr raw" ..
  from cleanedFields_lookup [OF c raw, of key] v
  have rv: "map_of raw key = Some v" and k: "\<not> empty_value v"
    by (auto simp: keep_iff split: option.splits if_splits)
  from raw_entry_source [OF r raw rv] show ?thesis
  proof (elim disjE conjE)
    assume "v = inbound_value formData key"
    with i k show ?thesis by simp
  next
    assume "v = js_or (inbound_value formData key) (JBool False)"
    with empty_value_falsy [OF i] show ?thesis by (simp add: js_or_def)
  next
    assume "key = ''status''" "v = js_or (inbound_value formData key) (JStr ''completed'')"
    with empty_value_falsy [OF i] show ?thesis by (simp add: js_or_def)
  next
    assume "v = JBool False"
    then show ?thesis by simp
  next
    assume "key = ''email_sequence_stage''" "v = JStr ''none''"
    then show ?thesis by simp
  qed
qed

theorem no_empty_inbound_witness:
  "cleanedFields (JObj [(''first_name'', JStr ''Ada''), (''personal_item_mixed'', JNull)]) =
    Inr [(''first_name'', JStr ''Ada''),
         (''personal_item_mixed'', JBool False),
         (''requires_temperature_control'', JBool False),
         (''status'', JStr ''completed''),
         (''reminder_sent'', JBool False),
         (''follow_up_sent'', JBool False),
         (''sales_manager_notified'', JBool False),
         (''email_sequence_stage'', JStr ''none'')]
   \<and> map_of [(''first_name'', JStr ''Ada''),
         (''personal_item_mixed'', JBool False),
         (''requires_temperature_control'', JBool False),
         (''status'', JStr ''completed''),
         (''reminder_sent'', JBool False),
         (''follow_up_sent'', JBool False),
         (''sales_manager_notified'', JBool False),
         (''email_sequence_stage'', JStr ''none'')] ''personal_item_mixed'' = Some (JBool False)
   \<and> empty_value (inbound_value
         (JObj [(''first_name'', JStr ''Ada''), (''personal_item_mixed'', JNull)])
         ''personal_item_mixed'')
   \<and> is_boolean (JBool False)"
proof -
  have c: "cleanedFields (JObj [(''first_name'', JStr ''Ada''), (''personal_item_mixed'', JNull)]) =
    Inr [(''first_name'', JStr ''Ada''),
         (''personal_item_mixed'', JBool False),
         (''requires_temperature_control'', JBool False),
         (''status'', JStr ''completed''),
         (''reminder_sent'', JBool False),
         (''follow_up_sent'', JBool False),
         (''sales_manager_notified'', JBool False),
         (''email_sequence_stage'', JStr ''none'')]"
    by (simp add: payload_defs)
  have i: "empty_value (inbound_value
         (JObj [(''first_name'', JStr ''Ada''), (''personal_item_mixed'', JNull)])
         ''personal_item_mixed'')"
    by (simp add: empty_value_def inbound_value_def document_status_keys_def read_prop_def)
  from no_empty_inbound [OF c _ i, of "JBool False"] c i
  show ?thesis by simp
qed

text \<open>
  Claim C1 as it is written fails on the empty body \<open>{}\<close>: the inbound \<open>status\<close> is
  \<open>undefined\<close>, and the payload holds the key \<open>status\<close> with the string
  \<open>completed\<close>, which is no boolean.
\<close>

theorem status_default_counterexample:
  "cleanedFields (JObj []) =
     Inr [(''personal_item_mixed'', JBool False),
          (''requires_temperature_control'', JBool False),
          (''status'', JStr ''completed''),
          (''reminder_sent'', JBool False),
          (''follow_up_sent'', JBool False),
          (''sales_manager_notified'', JBool False),
          (''email_sequence_stage'', JStr ''none'')]
   \<and> inbound_value (JObj []) ''status'' = JUndefined
   \<and> \<not> is_boolean (JStr ''completed'')"
  by (simp add: payload_defs inbound_value_def document_status_keys_def read_prop_def)

lemma raw_direction:
  assumes r: "formData \<noteq> JUndefined" "formData \<noteq> JNull"
    and raw: "rawPayload formData = Inr raw"
  shows "(read_prop formData ''direction'' = JStr ''import'' \<longrightarrow>
            map_of raw ''goods_location'' = Some (read_prop formData ''goods_location'')
          \<and> map_of raw ''arrival_method'' = Some (read_prop formData ''arrival_method'')
          \<and> map_of raw ''arrival_timeline'' = Some (read_prop formData ''arrival_timeline'')
          \<and> map_of raw ''customs_code_status'' = Some (read_prop formData ''customs_code_status'')
          \<and> map_of raw ''customs_code_number'' = Some (read_prop formData ''customs_code_number'')
          \<and> map_of raw ''export_service_needed'' = None
          \<and> map_of raw ''destination_country'' = None)
       \<and> (read_prop formData ''direction'' = JStr ''export'' \<longrightarrow>
            map_of raw ''export_service_needed'' = Some (read_prop formData ''export_service_needed'')
          \<and> map_of raw ''destination_country'' = Some (read_prop formData ''destination_country'')
          \<and> map_of raw ''goods_location'' = None
          \<and> map_of raw ''arrival_method'' = None
          \<and> map_of raw ''arrival_timeline'' = None
          \<and> map_of raw ''customs_code_status'' = None
          \<and> map_of raw ''customs_code_number'' = None)"
proof -
  have e: "Inr raw = rawPayload formData" using raw by simp
  show ?thesis
  proof (cases "read_prop formData ''direction''" rule: direction_cases)
    case import
    show ?thesis using e unfolding rawPayload_readable [OF r] import by simp
  next
    case export
    show ?thesis using e unfolding rawPayload_readable [OF r] export by simp
  next
    case neither
    then show ?thesis by simp
  qed
qed

lemma direction_lookup:
  assumes "cleanedFields formData = Inr cleaned"
  shows "(read_prop formData ''direction'' = JStr ''import'' \<longrightarrow>
            (\<not> empty_value (read_prop formData ''goods_location'') \<longrightarrow>
               map_of cleaned ''goods_location'' = Some (read_prop formData ''goods_location''))
          \<and> (\<not> empty_value (read_prop formData ''arrival_method'') \<longrightarrow>
               map_of cleaned ''arrival_method'' = Some (read_prop formData ''arrival_method''))
          \<and> (\<not> empty_value (read_prop formData ''arrival_timeline'') \<longrightarrow>
               map_of cleaned ''arrival_timeline'' = Some (read_prop formData ''arrival_timeline''))
          \<and> (\<not> empty_value (read_prop formData ''customs_code_status'') \<longrightarrow>
               map_of cleaned ''customs_code_status'' =
                 Some (read_prop formData ''customs_code_status''))
          \<and> (\<not> empty_value (read_prop formData ''customs_code_number'') \<longrightarrow>
               map_of cleaned ''customs_code_number'' =
                 Some (read_prop formData ''customs_code_number''))
          \<and> map_of cleaned ''export_service_needed'' = None
          \<and> map_of cleaned ''destination_country'' = None)
       \<and> (read_prop formData ''direction'' = JStr ''export'' \<longrightarrow>
            (\<not> empty_value (read_prop formData ''export_service_needed'') \<longrightarrow>
               map_of cleaned ''export_service_needed'' =
                 Some (read_prop formData ''export_service_needed''))
          \<and> (\<not> empty_value (read_prop formData ''destination_country'') \<longrightarrow>
               map_of cleaned ''destination_country'' =
                 Some (read_prop formData ''destination_country''))
          \<and> map_of cleaned ''goods_location'' = None
          \<and> map_of cleaned ''arrival_method'' = None
          \<and> map_of cleaned ''arrival_timeline'' = None
          \<and> map_of cleaned ''customs_code_status'' = None
          \<and> map_of cleaned ''customs_code_number'' = None)"
proof -
  from assms have r: "formData \<noteq> JUndefined" "formData \<noteq> JNull"
    by (auto dest: cleanedFields_readable)
  from cleanedFields_raw [OF assms] obtain raw where raw: "rawPayload formData = Inr raw" ..
  note look = cleanedFields_lookup [OF assms raw]
  from raw_direction [OF r raw] show ?thesis
    by (simp add: look keep_iff)
qed

text \<open>
  Claim C2. With \<open>direction\<close> equal to \<open>import\<close>, the mapping and the filter produce a
  payload, and it holds each of \<open>goods_location\<close>, \<open>arrival_method\<close>,
  \<open>arrival_timeline\<close>, \<open>customs_code_status\<close> and \<open>customs_code_number\<close> with
  its inbound value whenever that value is present and not empty (neither \<open>undefined\<close>,
  \<open>null\<close> nor the empty string), and holds neither \<open>export_service_needed\<close> nor
  \<open>destination_country\<close>. With \<open>direction\<close> equal to \<open>export\<close>, the payload is
  produced as well, holds the two export keys under the same condition, and none of the
  five import keys.
\<close>

theorem direction_fields:
  "(read_prop formData ''direction'' = JStr ''import'' \<longrightarrow>
      (\<exists>cleaned. cleanedFields formData = Inr cleaned
          \<and> (\<not> empty_value (read_prop formData ''goods_location'') \<longrightarrow>
               map_of cleaned ''goods_location'' = Some (read_prop formData ''goods_location''))
          \<and> (\<not> empty_value (read_prop formData ''arrival_method'') \<longrightarrow>
               map_of cleaned ''arrival_method'' = Some (read_prop formData ''arrival_method''))
          \<and> (\<not> empty_value (read_prop formData ''arrival_timeline'') \<longrightarrow>
               map_of cleaned ''arrival_timeline'' = Some (read_prop formData ''arrival_timeline''))
          \<and> (\<not> empty_value (read_prop formData ''customs_code_status'') \<longrightarrow>
               map_of cleaned ''customs_code_status'' =
                 Some (read_prop formData ''customs_code_status''))
          \<and> (\<not> empty_value (read_prop formData ''customs_code_number'') \<longrightarrow>
               map_of cleaned ''customs_code_number'' =
                 Some (read_prop formData ''customs_code_number''))
          \<and> map_of cleaned ''export_service_needed'' = None
          \<and> map_of cleaned ''destination_country'' = None))
   \<and> (read_prop formData ''direction'' = JStr ''export'' \<longrightarrow>
      (\<exists>cleaned. cleanedFields formData = Inr cleaned
          \<and> (\<not> empty_value (read_prop formData ''export_service_needed'') \<longrightarrow>
               map_of cleaned ''export_service_needed'' =
                 Some (read_prop formData ''export_service_needed''))
          \<and> (\<not> empty_value (read_prop formData ''destination_country'') \<longrightarrow>
               map_of cleaned ''destination_country'' =
                 Some (read_prop formData ''destination_country''))
          \<and> map_of cleaned ''goods_location'' = None
          \<and> map_of cleaned ''arrival_method'' = None
          \<and> map_of cleaned ''arrival_timeline'' = None
          \<and> map_of cleaned ''customs_code_status'' = None
          \<and> map_of cleaned ''customs_code_number'' = None))"
proof (rule conjI; rule impI)
  assume d: "read_prop formData ''direction'' = JStr ''import''"
  then have "formData \<noteq> JUndefined" "formData \<noteq> JNull"
    by (auto simp: read_prop_def)
  from cleanedFields_total [OF this] obtain cleaned
    where c: "cleanedFields formData = Inr cleaned" ..
  from direction_lookup [OF c] d c
  show "\<exists>cleaned. cleanedFields formData = Inr cleaned
          \<and> (\<not> empty_value (read_prop formData ''goods_location'') \<longrightarrow>
               map_of cleaned ''goods_location'' = Some (read_prop formData ''goods_location''))
          \<and> (\<not> empty_value (read_prop formData ''arrival_method'') \<longrightarrow>
               map_of cleaned ''arrival_method'' = Some (read_prop formData ''arrival_method''))
          \<and> (\<not> empty_value (read_prop formData ''arrival_timeline'') \<longrightarrow>
               map_of cleaned ''arrival_timeline'' = Some (read_prop formData ''arrival_timeline''))
          \<and> (\<not> empty_value (read_prop formData ''customs_code_status'') \<longrightarrow>
               map_of cleaned ''customs_code_status'' =
                 Some (read_prop formData ''customs_code_status''))
          \<and> (\<not> empty_value (read_prop formData ''customs_code_number'') \<longrightarrow>
               map_of cleaned ''customs_code_number'' =
                 Some (read_prop formData ''customs_code_number''))
          \<and> map_of cleaned ''export_service_needed'' = None
          \<and> map_of cleaned ''destination_country'' = None"
    by blast
next
  assume d: "read_prop formData ''direction'' = JStr ''export''"
  then have "formData \<noteq> JUndefined" "formData \<noteq> JNull"
    by (auto simp: read_prop_def)
  from cleanedFields_total [OF this] obtain cleaned
    where c: "cleanedFields formData = Inr cleaned" ..
  from direction_lookup [OF c] d c
  show "\<exists>cleaned. cleanedFields formData = Inr cleaned
          \<and> (\<not> empty_value (read_prop formData ''export_service_needed'') \<longrightarrow>
               map_of cleaned ''export_service_needed'' =
                 Some (read_prop formData ''export_service_needed''))
          \<and> (\<not> empty_value (read_prop formData ''destination_country'') \<longrightarrow>
               map_of cleaned ''destination_country'' =
                 Some (read_prop formData ''destination_country''))
          \<and> map_of cleaned ''goods_location'' = None
          \<and> map_of cleaned ''arrival_method'' = None
          \<and> map_of cleaned ''arrival_timeline'' = None
          \<and> map_of cleaned ''customs_code_status'' = None
          \<and> map_of cleaned ''customs_code_number'' = None"
    by blast
qed

theorem direction_fields_witness:
  "cleanedFields (JObj [(''direction'', JStr ''import''), (''goods_location'', JStr ''port''),
         (''destination_country'', JStr ''NZ'')]) =
     Inr [(''direction'', JStr ''import''),
         (''goods_location'', JStr ''port''),
         (''personal_item_mixed'', JBool False),
         (''requires_temperature_control'', JBool False),
         (''status'', JStr ''completed''),
         (''reminder_sent'', JBool False),
         (''follow_up_sent'', JBool False),
         (''sales_manager_notified'', JBool False),
         (''email_sequence_stage'', JStr ''none'')]
   \<and> read_prop (JObj [(''direction'', JStr ''import''), (''goods_location'', JStr ''port''),
         (''destination_country'', JStr ''NZ'')]) ''direction'' = JStr ''import''
   \<and> \<not> empty_value (read_prop (JObj [(''direction'', JStr ''import''), (''goods_location'', JStr ''port''),
         (''destination_country'', JStr ''NZ'')]) ''goods_location'')
   \<and> map_of [(''direction'', JStr ''import''),
         (''goods_location'', JStr ''port''),
         (''personal_item_mixed'', JBool False),
         (''requires_temperature_control'', JBool False),
         (''status'', JStr ''completed''),
         (''reminder_sent'', JBool False),
         (''follow_up_sent'', JBool False),
         (''sales_manager_notified'', JBool False),
         (''email_sequence_stage'', JStr ''none'')] ''goods_location'' = Some (JStr ''port'')
   \<and> map_of [(''direction'', JStr ''import''),
         (''goods_location'', JStr ''port''),
         (''personal_item_mixed'', JBool False),
         (''requires_temperature_control'', JBool False),
         (''status'', JStr ''completed''),
         (''reminder_sent'', JBool False),
         (''follow_up_sent'', JBool False),
         (''sales_manager_notified'', JBool False),
         (''email_sequence_stage'', JStr ''none'')] ''destination_country'' = None
   \<and> cleanedFields (JObj [(''direction'', JStr ''export''), (''goods_location'', JStr ''port''),
         (''destination_country'', JStr ''NZ'')]) =
     Inr [(''direction'', JStr ''export''),
         (''destination_country'', JStr ''NZ''),
         (''personal_item_mixed'', JBool False),
         (''requires_temperature_control'', JBool False),
         (''status'', JStr ''completed''),
         (''reminder_sent'', JBool False),
         (''follow_up_sent'', JBool False),
         (''sales_manager_notified'', JBool False),
         (''email_sequence_stage'', JStr ''none'')]
   \<and> read_prop (JObj [(''direction'', JStr ''export''), (''goods_location'', JStr ''port''),
         (''destination_country'', JStr ''NZ'')]) ''direction'' = JStr ''export''
   \<and> \<not> empty_value (read_prop (JObj [(''direction'', JStr ''export''), (''goods_location'', JStr ''port''),
         (''destination_country'', JStr ''NZ'')]) ''destination_country'')
   \<and> map_of [(''direction'', JStr ''export''),
         (''destination_country'', JStr ''NZ''),
         (''personal_item_mixed'', JBool False),
         (''requires_temperature_control'', JBool False),
         (''status'', JStr ''completed''),
         (''reminder_sent'', JBool False),
         (''follow_up_sent'', JBool False),
         (''sales_manager_notified'', JBool False),
         (''email_sequence_stage'', JStr ''none'')] ''destination_country'' = Some (JStr ''NZ'')
   \<and> map_of [(''direction'', JStr ''export''),
         (''destination_country'', JStr ''NZ''),
         (''personal_item_mixed'', JBool False),
         (''requires_temperature_control'', JBool False),
         (''status'', JStr ''completed''),
         (''reminder_sent'', JBool False),
         (''follow_up_sent'', JBool False),
         (''sales_manager_notified'', JBool False),
         (''email_sequence_stage'', JStr ''none'')] ''goods_location'' = None"
proof -
  have i: "cleanedFields (JObj [(''direction'', JStr ''import''), (''goods_location'', JStr ''port''),
         (''destination_country'', JStr ''NZ'')]) =
     Inr [(''direction'', JStr ''import''),
         (''goods_location'', JStr ''port''),
         (''personal_item_mixed'', JBool False),
         (''requires_temperature_control'', JBool False),
         (''status'', JStr ''completed''),
         (''reminder_sent'', JBool False),
         (''follow_up_sent'', JBool False),
         (''sales_manager_notified'', JBool False),
         (''email_sequence_stage'', JStr ''none'')]"
    by (simp add: payload_defs)
  have e: "cleanedFields (JObj [(''direction'', JStr ''export''), (''goods_location'', JStr ''port''),
         (''destination_country'', JStr ''NZ'')]) =
     Inr [(''direction'', JStr ''export''),
         (''destination_country'', JStr ''NZ''),
         (''personal_item_mixed'', JBool False),
         (''requires_temperature_control'', JBool False),
         (''status'', JStr ''completed''),
         (''reminder_sent'', JBool False),
         (''follow_up_sent'', JBool False),
         (''sales_manager_notified'', JBool False),
         (''email_sequence_stage'', JStr ''none'')]"
    by (simp add: payload_defs)
  from direction_fields
      [of "JObj [(''direction'', JStr ''import''), (''goods_location'', JStr ''port''),
         (''destination_country'', JStr ''NZ'')]"]
    direction_fields
      [of "JObj [(''direction'', JStr ''export''), (''goods_location'', JStr ''port''),
         (''destination_country'', JStr ''NZ'')]"] i e
  show ?thesis
    by (simp add: read_prop_def empty_value_def)
qed

lemma cleaned_nonempty:
  assumes "cleanedFields formData = Inr cleaned" and "map_of cleaned k = Some v"
  shows "\<not> empty_value v"
proof -
  from cleanedFields_raw [OF assms(1)] obtain raw where raw: "rawPayload formData = Inr raw" ..
  from cleanedFields_lookup [OF assms(1) raw, of k] assms(2) show ?thesis
    by (auto simp: keep_iff split: option.splits if_splits)
qed

text \<open>
  Claim C10. For a request body that can be read at all, the mapping and the filter do
  not throw, whatever \<open>document_status\<close> is (absent, \<open>null\<close>, no object, or an object
  without some of the keys). Each of the seven document keys is left out of the payload
  when its source \<open>document_status?.k\<close> is missing, and none is ever sent with the value
  \<open>undefined\<close> or \<open>null\<close>.
\<close>

theorem document_status_optional:
  assumes "formData \<noteq> JUndefined" "formData \<noteq> JNull"
  shows "\<exists>cleaned. cleanedFields formData = Inr cleaned
     \<and> (\<forall>(key, sub) \<in> set document_status_keys.
          (opt_prop (read_prop formData ''document_status'') sub = JUndefined \<longrightarrow>
             map_of cleaned key = None)
          \<and> map_of cleaned key \<noteq> Some JUndefined
          \<and> map_of cleaned key \<noteq> Some JNull)"
proof -
  from cleanedFields_total [OF assms] obtain cleaned
    where c: "cleanedFields formData = Inr cleaned" by blast
  from cleanedFields_raw [OF c] obtain raw where raw: "rawPayload formData = Inr raw" ..
  have present: "map_of cleaned key \<noteq> Some JUndefined \<and> map_of cleaned key \<noteq> Some JNull"
    for key
    using cleaned_nonempty [OF c, of key] by (auto simp: empty_value_def)
  have omitted: "map_of cleaned key = None"
    if "(key, sub) \<in> set document_status_keys"
      and "opt_prop (read_prop formData ''document_status'') sub = JUndefined" for key sub
  proof -
    from raw_documents [OF assms raw] that
    have "map_of raw key = Some JUndefined" by auto
    from cleaned_Some [OF c raw this] show ?thesis by (simp add: empty_value_def)
  qed
  from c present omitted show ?thesis by blast
qed

theorem document_status_optional_witness:
  "JObj [(''document_status'', JObj [(''air_waybill'', JStr ''received'')])] \<noteq> JUndefined
   \<and> JObj [(''document_status'', JObj [(''air_waybill'', JStr ''received'')])] \<noteq> JNull
   \<and> cleanedFields (JObj [(''document_status'', JObj [(''air_waybill'', JStr ''received'')])]) =
     Inr [(''personal_item_mixed'', JBool False),
         (''requires_temperature_control'', JBool False),
         (''air_waybill_status'', JStr ''received''),
         (''status'', JStr ''completed''),
         (''reminder_sent'', JBool False),
         (''follow_up_sent'', JBool False),
         (''sales_manager_notified'', JBool False),
         (''email_sequence_stage'', JStr ''none'')]
   \<and> opt_prop (read_prop (JObj [(''document_status'', JObj [(''air_waybill'', JStr ''received'')])])
        ''document_status'') ''msds'' = JUndefined
   \<and> map_of [(''personal_item_mixed'', JBool False),
         (''requires_temperature_control'', JBool False),
         (''air_waybill_status'', JStr ''received''),
         (''status'', JStr ''completed''),
         (''reminder_sent'', JBool False),
         (''follow_up_sent'', JBool False),
         (''sales_manager_notified'', JBool False),
         (''email_sequence_stage'', JStr ''none'')] ''msds_status'' = None
   \<and> map_of [(''personal_item_mixed'', JBool False),
         (''requires_temperature_control'', JBool False),
         (''air_waybill_status'', JStr ''received''),
         (''status'', JStr ''completed''),
         (''reminder_sent'', JBool False),
         (''follow_up_sent'', JBool False),
         (''sales_manager_notified'', JBool False),
         (''email_sequence_stage'', JStr ''none'')] ''air_waybill_status'' = Some (JStr ''received'')"
proof -
  have c: "cleanedFields (JObj [(''document_status'', JObj [(''air_waybill'', JStr ''received'')])]) =
     Inr [(''personal_item_mixed'', JBool False),
         (''requires_temperature_control'', JBool False),
         (''air_waybill_status'', JStr ''received''),
         (''status'', JStr ''completed''),
         (''reminder_sent'', JBool False),
         (''follow_up_sent'', JBool False),
         (''sales_manager_notified'', JBool False),
         (''email_sequence_stage'', JStr ''none'')]"
    by (simp add: payload_defs read_prop_def)
  from document_status_optional [of "JObj [(''document_status'', JObj [(''air_waybill'', JStr ''received'')])]"] c
  show ?thesis
    by (simp add: read_prop_def opt_prop_def)
qed

lemma defaults_lookup:
  assumes "cleanedFields formData = Inr cleaned"
  shows "(read_prop formData ''personal_item_mixed'' = JUndefined \<longrightarrow>
            map_of cleaned ''personal_item_mixed'' = Some (JBool False))
       \<and> (read_prop formData ''requires_temperature_control'' = JUndefined \<longrightarrow>
            map_of cleaned ''requires_temperature_control'' = Some (JBool False))
       \<and> (read_prop formData ''status'' = JUndefined \<longrightarrow>
            map_of cleaned ''status'' = Some (JStr ''completed''))
       \<and> map_of cleaned ''reminder_sent'' = Some (JBool False)
       \<and> map_of cleaned ''follow_up_sent'' = Some (JBool False)
       \<and> map_of cleaned ''sales_manager_notified'' = Some (JBool False)
       \<and> map_of cleaned ''email_sequence_stage'' = Some (JStr ''none'')"
proof -
  from assms have r: "formData \<noteq> JUndefined" "formData \<noteq> JNull"
    by (auto dest: cleanedFields_readable)
  from cleanedFields_raw [OF assms] obtain raw where raw: "rawPayload formData = Inr raw" ..
  note look = cleanedFields_lookup [OF assms raw]
  from raw_defaults [OF r raw] show ?thesis
    by (simp add: look keep_iff js_or_def empty_value_def)
qed

text \<open>
  Claim C6. For every request body that can be read at all, the mapping and the filter
  produce a payload in which \<open>personal_item_mixed\<close> and
  \<open>requires_temperature_control\<close> are \<open>false\<close> when the input has none, \<open>status\<close>
  is \<open>completed\<close> when the input has none, and \<open>reminder_sent\<close>, \<open>follow_up_sent\<close>,
  \<open>sales_manager_notified\<close> and \<open>email_sequence_stage\<close> are \<open>false\<close>, \<open>false\<close>,
  \<open>false\<close> and \<open>none\<close> whatever the input is.
\<close>

theorem payload_defaults:
  assumes "formData \<noteq> JUndefined" "formData \<noteq> JNull"
  shows "\<exists>cleaned. cleanedFields formData = Inr cleaned
       \<and> (read_prop formData ''personal_item_mixed'' = JUndefined \<longrightarrow>
            map_of cleaned ''personal_item_mixed'' = Some (JBool False))
       \<and> (read_prop formData ''requires_temperature_control'' = JUndefined \<longrightarrow>
            map_of cleaned ''requires_temperature_control'' = Some (JBool False))
       \<and> (read_prop formData ''status'' = JUndefined \<longrightarrow>
            map_of cleaned ''status'' = Some (JStr ''completed''))
       \<and> map_of cleaned ''reminder_sent'' = Some (JBool False)
       \<and> map_of cleaned ''follow_up_sent'' = Some (JBool False)
       \<and> map_of cleaned ''sales_manager_notified'' = Some (JBool False)
       \<and> map_of cleaned ''email_sequence_stage'' = Some (JStr ''none'')"
proof -
  from cleanedFields_total [OF assms] obtain cleaned
    where c: "cleanedFields formData = Inr cleaned" ..
  from defaults_lookup [OF c] c show ?thesis by blast
qed

theorem payload_defaults_witness:
  "JObj [(''first_name'', JStr ''Ada'')] \<noteq> JUndefined
   \<and> JObj [(''first_name'', JStr ''Ada'')] \<noteq> JNull
   \<and> cleanedFields (JObj [(''first_name'', JStr ''Ada'')]) =
     Inr [(''first_name'', JStr ''Ada''),
         (''personal_item_mixed'', JBool False),
         (''requires_temperature_control'', JBool False),
         (''status'', JStr ''completed''),
         (''reminder_sent'', JBool False),
         (''follow_up_sent'', JBool False),
         (''sales_manager_notified'', JBool False),
         (''email_sequence_stage'', JStr ''none'')]
   \<and> read_prop (JObj [(''first_name'', JStr ''Ada'')]) ''personal_item_mixed'' = JUndefined
   \<and> read_prop (JObj [(''first_name'', JStr ''Ada'')]) ''requires_temperature_control'' = JUndefined
   \<and> read_prop (JObj [(''first_name'', JStr ''Ada'')]) ''status'' = JUndefined
   \<and> map_of [(''first_name'', JStr ''Ada''),
         (''personal_item_mixed'', JBool False),
         (''requires_temperature_control'', JBool False),
         (''status'', JStr ''completed''),
         (''reminder_sent'', JBool False),
         (''follow_up_sent'', JBool False),
         (''sales_manager_notified'', JBool False),
         (''email_sequence_stage'', JStr ''none'')] ''personal_item_mixed'' = Some (JBool False)
   \<and> map_of [(''first_name'', JStr ''Ada''),
         (''personal_item_mixed'', JBool False),
         (''requires_temperature_control'', JBool False),
         (''status'', JStr ''completed''),
         (''reminder_sent'', JBool False),
         (''follow_up_sent'', JBool False),
         (''sales_manager_notified'', JBool False),
         (''email_sequence_stage'', JStr ''none'')] ''requires_temperature_control'' = Some (JBool False)
   \<and> map_of [(''first_name'', JStr ''Ada''),
         (''personal_item_mixed'', JBool False),
         (''requires_temperature_control'', JBool False),
         (''status'', JStr ''completed''),
         (''reminder_sent'', JBool False),
         (''follow_up_sent'', JBool False),
         (''sales_manager_notified'', JBool False),
         (''email_sequence_stage'', JStr ''none'')] ''status'' = Some (JStr ''completed'')
   \<and> map_of [(''first_name'', JStr ''Ada''),
         (''personal_item_mixed'', JBool False),
         (''requires_temperature_control'', JBool False),
         (''status'', JStr ''completed''),
         (''reminder_sent'', JBool False),
         (''follow_up_sent'', JBool False),
         (''sales_manager_notified'', JBool False),
         (''email_sequence_stage'', JStr ''none'')] ''email_sequence_stage'' = Some (JStr ''none'')"
proof -
  have c: "cleanedFields (JObj [(''first_name'', JStr ''Ada'')]) =
     Inr [(''first_name'', JStr ''Ada''),
         (''personal_item_mixed'', JBool False),
         (''requires_temperature_control'', JBool False),
         (''status'', JStr ''completed''),
         (''reminder_sent'', JBool False),
         (''follow_up_sent'', JBool False),
         (''sales_manager_notified'', JBool False),
         (''email_sequence_stage'', JStr ''none'')]"
    by (simp add: payload_defs)
  from payload_defaults [of "JObj [(''first_name'', JStr ''Ada'')]"] c show ?thesis
    by (simp add: read_prop_def)
qed

subsection \<open>Requests that reach no outbound call\<close>

text \<open>
  Claim C8. A request whose method is none of OPTIONS, POST and PATCH is answered with
  status 405 and the body \<open>{success: false, error: "Method not allowed"}\<close>, and the
  handler calls \<open>fetch\<close> not at all.
\<close>

theorem method_not_allowed:
  assumes "method req \<notin> {''OPTIONS'', ''POST'', ''PATCH''}"
  shows "status (sent (submitToAirTable env up req)) = 405
       \<and> content (sent (submitToAirTable env up req)) =
           JsonBody (JObj [(''success'', JBool False), (''error'', JStr ''Method not allowed'')])
       \<and> calls (submitToAirTable env up req) = []"
  using assms by (simp add: submitToAirTable_def res_json_def)

theorem method_not_allowed_witness:
  "''GET'' \<notin> {''OPTIONS'', ''POST'', ''PATCH''}
   \<and> status (sent (submitToAirTable \<lparr>AIRTABLE_API_KEY = Some ''key'', AIRTABLE_BASE_ID = None\<rparr>
        (Inl (TypeError ''fetch failed'')) \<lparr>method = ''GET'', body = JUndefined\<rparr>)) = 405
   \<and> content (sent (submitToAirTable \<lparr>AIRTABLE_API_KEY = Some ''key'', AIRTABLE_BASE_ID = None\<rparr>
        (Inl (TypeError ''fetch failed'')) \<lparr>method = ''GET'', body = JUndefined\<rparr>)) =
        JsonBody (JObj [(''success'', JBool False), (''error'', JStr ''Method not allowed'')])
   \<and> calls (submitToAirTable \<lparr>AIRTABLE_API_KEY = Some ''key'', AIRTABLE_BASE_ID = None\<rparr>
        (Inl (TypeError ''fetch failed'')) \<lparr>method = ''GET'', body = JUndefined\<rparr>) = []"
  using method_not_allowed [of "\<lparr>method = ''GET'', body = JUndefined\<rparr>"
      "\<lparr>AIRTABLE_API_KEY = Some ''key'', AIRTABLE_BASE_ID = None\<rparr>"
      "Inl (TypeError ''fetch failed'')"]
  by simp

text \<open>
  Claim C9. A request with method OPTIONS is answered with status 200 and no body; the
  handler calls \<open>fetch\<close> not at all, and it does not read the request body: the outcome
  is the same whatever the body is.
\<close>

theorem options_preflight:
  assumes "method req = ''OPTIONS''"
  shows "status (sent (submitToAirTable env up req)) = 200
       \<and> content (sent (submitToAirTable env up req)) = NoBody
       \<and> calls (submitToAirTable env up req) = []
       \<and> submitToAirTable env up (req\<lparr>body := b\<rparr>) = submitToAirTable env up req"
  using assms by (simp add: submitToAirTable_def res_end_def)

theorem options_preflight_witness:
  "method \<lparr>method = ''OPTIONS'', body = JUndefined\<rparr> = ''OPTIONS''
   \<and> status (sent (submitToAirTable \<lparr>AIRTABLE_API_KEY = None, AIRTABLE_BASE_ID = None\<rparr>
        (Inl (TypeError ''fetch failed'')) \<lparr>method = ''OPTIONS'', body = JUndefined\<rparr>)) = 200
   \<and> content (sent (submitToAirTable \<lparr>AIRTABLE_API_KEY = None, AIRTABLE_BASE_ID = None\<rparr>
        (Inl (TypeError ''fetch failed'')) \<lparr>method = ''OPTIONS'', body = JUndefined\<rparr>)) = NoBody
   \<and> calls (submitToAirTable \<lparr>AIRTABLE_API_KEY = None, AIRTABLE_BASE_ID = None\<rparr>
        (Inl (TypeError ''fetch failed'')) \<lparr>method = ''OPTIONS'', body = JUndefined\<rparr>) = []
   \<and> submitToAirTable \<lparr>AIRTABLE_API_KEY = None, AIRTABLE_BASE_ID = None\<rparr>
        (Inl (TypeError ''fetch failed'')) \<lparr>method = ''OPTIONS'', body = JObj [(''first_name'', JStr ''Ada'')]\<rparr>
     = submitToAirTable \<lparr>AIRTABLE_API_KEY = None, AIRTABLE_BASE_ID = None\<rparr>
        (Inl (TypeError ''fetch failed'')) \<lparr>method = ''OPTIONS'', body = JUndefined\<rparr>"
  using options_preflight [of "\<lparr>method = ''OPTIONS'', body = JUndefined\<rparr>"
      "\<lparr>AIRTABLE_API_KEY = None, AIRTABLE_BASE_ID = None\<rparr>"
      "Inl (TypeError ''fetch failed'')" "JObj [(''first_name'', JStr ''Ada'')]"]
  by simp

lemma try_block_no_key:
  "api_key_missing env \<Longrightarrow>
   try_block env up formData =
     (case get_prop formData ''airtable_record_id'' of
        Inl e \<Rightarrow> (Inl e, [], [])
      | Inr recordId \<Rightarrow> (Inl (Error ''AirTable API key not configured''), [], []))"
  by (simp add: try_block_def split: sum.splits)

lemma get_prop_message: "get_prop v k = Inl e \<Longrightarrow> message e \<noteq> []"
  by (cases v) auto

text \<open>
  Claim C7. A POST or PATCH request handled while the API key is not configured (the
  variable is not set, or is empty) is answered with status 500 and a body
  \<open>{success: false, error: m}\<close>, where \<open>m\<close> is the message of the error thrown; the
  handler calls \<open>fetch\<close> not at all. The error does not leave the handler: the outcome
  of \<open>submitToAirTable\<close> is this response.
\<close>

theorem missing_api_key:
  assumes "method req \<in> {''POST'', ''PATCH''}" and "api_key_missing env"
  shows "status (sent (submitToAirTable env up req)) = 500
       \<and> content (sent (submitToAirTable env up req)) =
           JsonBody (JObj [(''success'', JBool False),
             (''error'', JStr (case get_prop (body req) ''airtable_record_id'' of
                 Inl e \<Rightarrow> message e
               | Inr recordId \<Rightarrow> ''AirTable API key not configured''))])
       \<and> calls (submitToAirTable env up req) = []"
proof -
  from assms(1) have m: "method req \<noteq> ''OPTIONS''"
    "\<not> (method req \<noteq> ''POST'' \<and> method req \<noteq> ''PATCH'')" by auto
  show ?thesis
  proof (cases "get_prop (body req) ''airtable_record_id''")
    case (Inl e)
    with get_prop_message [OF Inl] m assms(2) show ?thesis
      by (simp add: submitToAirTable_def try_block_no_key catch_block_def res_json_def js_or_def)
  next
    case (Inr recordId)
    with m assms(2) show ?thesis
      by (simp add: submitToAirTable_def try_block_no_key catch_block_def res_json_def js_or_def)
  qed
qed

theorem missing_api_key_witness:
  "''POST'' \<in> {''POST'', ''PATCH''}
   \<and> api_key_missing \<lparr>AIRTABLE_API_KEY = None, AIRTABLE_BASE_ID = None\<rparr>
   \<and> status (sent (submitToAirTable \<lparr>AIRTABLE_API_KEY = None, AIRTABLE_BASE_ID = None\<rparr>
        (Inr \<lparr>ok = True, json = Inr (JObj [(''id'', JStr ''rec123'')])\<rparr>)
        \<lparr>method = ''POST'', body = JObj [(''first_name'', JStr ''Ada'')]\<rparr>)) = 500
   \<and> content (sent (submitToAirTable \<lparr>AIRTABLE_API_KEY = None, AIRTABLE_BASE_ID = None\<rparr>
        (Inr \<lparr>ok = True, json = Inr (JObj [(''id'', JStr ''rec123'')])\<rparr>)
        \<lparr>method = ''POST'', body = JObj [(''first_name'', JStr ''Ada'')]\<rparr>)) =
        JsonBody (JObj [(''success'', JBool False),
          (''error'', JStr ''AirTable API key not configured'')])
   \<and> calls (submitToAirTable \<lparr>AIRTABLE_API_KEY = None, AIRTABLE_BASE_ID = None\<rparr>
        (Inr \<lparr>ok = True, json = Inr (JObj [(''id'', JStr ''rec123'')])\<rparr>)
        \<lparr>method = ''POST'', body = JObj [(''first_name'', JStr ''Ada'')]\<rparr>) = []"
  using missing_api_key [of "\<lparr>method = ''POST'', body = JObj [(''first_name'', JStr ''Ada'')]\<rparr>"
      "\<lparr>AIRTABLE_API_KEY = None, AIRTABLE_BASE_ID = None\<rparr>"
      "Inr \<lparr>ok = True, json = Inr (JObj [(''id'', JStr ''rec123'')])\<rparr>"]
  by (simp add: api_key_missing_def)

subsection \<open>Dispatch and the reply of the outbound call\<close>

text \<open>
  With the API key configured and a body that can be read, the handler makes one call of
  \<open>fetch\<close>; once the call is made, the response is decided by the reply alone.
\<close>

lemma collection_url_eq:
  "collection_url env = ''https://api.airtable.com/v0/'' @ base_id env @ ''/Form%20Submissions''"
  by (simp add: collection_url_def AIRTABLE_TABLE_NAME_def encodeURIComponent_def encode_char_def
      unreserved_def hex_digit_def)

lemma submit_post:
  assumes "method req \<in> {''POST'', ''PATCH''}"
  shows "submitToAirTable env up req =
     (case try_block env up (body req) of
        (Inl error, cs, lg) \<Rightarrow>
          \<lparr>sent = catch_block error, calls = cs,
           logged = lg @ [LogError ''Submission error:'' error]\<rparr>
      | (Inr r, cs, lg) \<Rightarrow> \<lparr>sent = r, calls = cs, logged = lg\<rparr>)"
  using assms by (auto simp: submitToAirTable_def)

lemma try_block_dispatch:
  assumes "\<not> api_key_missing env"
    and "get_prop formData ''airtable_record_id'' = Inr recordId"
    and "airtableUrl env recordId = Inr url"
  shows "\<exists>cleaned. cleanedFields formData = Inr cleaned
     \<and> try_block env up formData =
         (fst (handle_reply up), [fetch_request env recordId url cleaned], snd (handle_reply up))"
proof -
  from assms(2) have "formData \<noteq> JUndefined" "formData \<noteq> JNull" by auto
  from cleanedFields_total [OF this] obtain cleaned
    where "cleanedFields formData = Inr cleaned" ..
  with assms show ?thesis by (simp add: try_block_def)
qed

lemma calls_dispatch:
  assumes "method req \<in> {''POST'', ''PATCH''}" and "\<not> api_key_missing env"
    and "get_prop (body req) ''airtable_record_id'' = Inr recordId"
    and "airtableUrl env recordId = Inr url"
  shows "\<exists>cleaned. cleanedFields (body req) = Inr cleaned
     \<and> calls (submitToAirTable env up req) = [fetch_request env recordId url cleaned]"
proof -
  from try_block_dispatch [OF assms(2-4), of up] obtain cleaned
    where c: "cleanedFields (body req) = Inr cleaned"
      and t: "try_block env up (body req) =
         (fst (handle_reply up), [fetch_request env recordId url cleaned], snd (handle_reply up))"
    by blast
  from t have "calls (submitToAirTable env up req) = [fetch_request env recordId url cleaned]"
    by (simp add: submit_post [OF assms(1)] split: sum.splits)
  with c show ?thesis by blast
qed

lemma sent_after_call:
  assumes "calls (submitToAirTable env up req) \<noteq> []"
  shows "sent (submitToAirTable env up req) =
     (case fst (handle_reply up) of Inl e \<Rightarrow> catch_block e | Inr r \<Rightarrow> r)"
  using assms
  by (auto simp: submitToAirTable_def try_block_def split: sum.splits if_splits)

lemmas handler_defs = submitToAirTable_def try_block_def handle_reply_def catch_block_def
  res_json_def res_end_def airtableUrl_def isUpdate_def js_and_def fetch_request_def
  airtablePayload_def api_key_missing_def api_key_def base_id_def collection_url_eq
  read_prop_def opt_prop_def

text \<open>
  Claim C3, as amended. A POST or PATCH request handled while the API key is configured
  makes exactly one call of \<open>fetch\<close>. When the body carries a non-empty string
  \<open>airtable_record_id\<close>, the call is a PATCH to the collection URL followed by \<open>/\<close>
  and that identifier; when the identifier is absent or the empty string, it is a POST to
  the collection URL. Both carry the bearer header and the body \<open>{fields: payload}\<close>.
\<close>

theorem dispatch_by_record_id:
  assumes "method req \<in> {''POST'', ''PATCH''}" and "\<not> api_key_missing env"
  shows "(get_prop (body req) ''airtable_record_id'' = Inr (JStr s) \<and> s \<noteq> [] \<longrightarrow>
           (\<exists>cleaned. cleanedFields (body req) = Inr cleaned
             \<and> calls (submitToAirTable env up req) =
                 [\<lparr>call_url = ''https://api.airtable.com/v0/'' @ base_id env
                               @ ''/Form%20Submissions/'' @ s,
                   call_method = ''PATCH'',
                   call_headers = [(''Authorization'', ''Bearer '' @ api_key env),
                                   (''Content-Type'', ''application/json'')],
                   call_body = JObj [(''fields'', JObj cleaned)]\<rparr>]))
       \<and> (get_prop (body req) ''airtable_record_id'' = Inr JUndefined
            \<or> get_prop (body req) ''airtable_record_id'' = Inr (JStr []) \<longrightarrow>
           (\<exists>cleaned. cleanedFields (body req) = Inr cleaned
             \<and> calls (submitToAirTable env up req) =
                 [\<lparr>call_url = ''https://api.airtable.com/v0/'' @ base_id env
                               @ ''/Form%20Submissions'',
                   call_method = ''POST'',
                   call_headers = [(''Authorization'', ''Bearer '' @ api_key env),
                                   (''Content-Type'', ''application/json'')],
                   call_body = JObj [(''fields'', JObj cleaned)]\<rparr>]))"
proof (intro conjI impI)
  assume "get_prop (body req) ''airtable_record_id'' = Inr (JStr s) \<and> s \<noteq> []"
  then have g: "get_prop (body req) ''airtable_record_id'' = Inr (JStr s)" and s: "s \<noteq> []"
    by simp_all
  from s have u: "airtableUrl env (JStr s) = Inr (collection_url env @ ''/'' @ s)"
    by (simp add: airtableUrl_def isUpdate_def js_and_def)
  from calls_dispatch [OF assms g u, of up] s
  show "\<exists>cleaned. cleanedFields (body req) = Inr cleaned
             \<and> calls (submitToAirTable env up req) =
                 [\<lparr>call_url = ''https://api.airtable.com/v0/'' @ base_id env
                               @ ''/Form%20Submissions/'' @ s,
                   call_method = ''PATCH'',
                   call_headers = [(''Authorization'', ''Bearer '' @ api_key env),
                                   (''Content-Type'', ''application/json'')],
                   call_body = JObj [(''fields'', JObj cleaned)]\<rparr>]"
    by (simp add: fetch_request_def isUpdate_def js_and_def airtablePayload_def collection_url_eq)
next
  assume "get_prop (body req) ''airtable_record_id'' = Inr JUndefined
            \<or> get_prop (body req) ''airtable_record_id'' = Inr (JStr [])"
  then obtain recordId where g: "get_prop (body req) ''airtable_record_id'' = Inr recordId"
    and f: "recordId = JUndefined \<or> recordId = JStr []" by blast
  from f have u: "airtableUrl env recordId = Inr (collection_url env)"
    by (auto simp: airtableUrl_def isUpdate_def js_and_def)
  from calls_dispatch [OF assms g u, of up] f
  show "\<exists>cleaned. cleanedFields (body req) = Inr cleaned
             \<and> calls (submitToAirTable env up req) =
                 [\<lparr>call_url = ''https://api.airtable.com/v0/'' @ base_id env
                               @ ''/Form%20Submissions'',
                   call_method = ''POST'',
                   call_headers = [(''Authorization'', ''Bearer '' @ api_key env),
                                   (''Content-Type'', ''application/json'')],
                   call_body = JObj [(''fields'', JObj cleaned)]\<rparr>]"
    by (auto simp: fetch_request_def isUpdate_def js_and_def airtablePayload_def collection_url_eq)
qed

theorem dispatch_by_record_id_witness:
  "''PATCH'' \<in> {''POST'', ''PATCH''} \<and> ''POST'' \<in> {''POST'', ''PATCH''}
   \<and> \<not> api_key_missing \<lparr>AIRTABLE_API_KEY = Some ''key'', AIRTABLE_BASE_ID = None\<rparr>
   \<and> get_prop (JObj [(''airtable_record_id'', JStr ''rec1'')]) ''airtable_record_id'' =
       Inr (JStr ''rec1'')
   \<and> ''rec1'' \<noteq> []
   \<and> calls (submitToAirTable \<lparr>AIRTABLE_API_KEY = Some ''key'', AIRTABLE_BASE_ID = None\<rparr>
        (Inr \<lparr>ok = True, json = Inr (JObj [(''id'', JStr ''rec123'')])\<rparr>)
        \<lparr>method = ''PATCH'', body = JObj [(''airtable_record_id'', JStr ''rec1'')]\<rparr>) =
        [\<lparr>call_url = ''https://api.airtable.com/v0/appTll6JoqW04YvJs/Form%20Submissions/rec1'',
          call_method = ''PATCH'',
          call_headers = [(''Authorization'', ''Bearer key''),
                          (''Content-Type'', ''application/json'')],
          call_body = JObj [(''fields'', JObj
                   [(''personal_item_mixed'', JBool False),
                    (''requires_temperature_control'', JBool False),
                    (''status'', JStr ''completed''),
                    (''reminder_sent'', JBool False),
                    (''follow_up_sent'', JBool False),
                    (''sales_manager_notified'', JBool False),
                    (''email_sequence_stage'', JStr ''none'')])]\<rparr>]
   \<and> get_prop (JObj [(''first_name'', JStr ''Ada'')]) ''airtable_record_id'' = Inr JUndefined
   \<and> calls (submitToAirTable \<lparr>AIRTABLE_API_KEY = Some ''key'', AIRTABLE_BASE_ID = None\<rparr>
        (Inr \<lparr>ok = True, json = Inr (JObj [(''id'', JStr ''rec123'')])\<rparr>)
        \<lparr>method = ''POST'', body = JObj [(''first_name'', JStr ''Ada'')]\<rparr>) =
        [\<lparr>call_url = ''https://api.airtable.com/v0/appTll6JoqW04YvJs/Form%20Submissions'',
          call_method = ''POST'',
          call_headers = [(''Authorization'', ''Bearer key''),
                          (''Content-Type'', ''application/json'')],
          call_body = JObj [(''fields'', JObj
                   [(''first_name'', JStr ''Ada''),
                    (''personal_item_mixed'', JBool False),
                    (''requires_temperature_control'', JBool False),
                    (''status'', JStr ''completed''),
                    (''reminder_sent'', JBool False),
                    (''follow_up_sent'', JBool False),
                    (''sales_manager_notified'', JBool False),
                    (''email_sequence_stage'', JStr ''none'')])]\<rparr>]"
  using dispatch_by_record_id [of "\<lparr>method = ''PATCH'', body = JObj [(''airtable_record_id'', JStr ''rec1'')]\<rparr>"
      "\<lparr>AIRTABLE_API_KEY = Some ''key'', AIRTABLE_BASE_ID = None\<rparr>" "''rec1''"
      "(Inr \<lparr>ok = True, json = Inr (JObj [(''id'', JStr ''rec123'')])\<rparr>)"]
    dispatch_by_record_id [of "\<lparr>method = ''POST'', body = JObj [(''first_name'', JStr ''Ada'')]\<rparr>"
      "\<lparr>AIRTABLE_API_KEY = Some ''key'', AIRTABLE_BASE_ID = None\<rparr>" "''rec1''"
      "(Inr \<lparr>ok = True, json = Inr (JObj [(''id'', JStr ''rec123'')])\<rparr>)"]
  by (simp add: handler_defs payload_defs)

text \<open>
  Claim C3 as it is written fails without the API key: a PATCH request whose body names
  the record \<open>rec1\<close> makes no call of \<open>fetch\<close> (lines 44 to 46 throw first).
\<close>

theorem missing_key_no_call_counterexample:
  "get_prop (JObj [(''airtable_record_id'', JStr ''rec1'')]) ''airtable_record_id'' =
       Inr (JStr ''rec1'')
   \<and> calls (submitToAirTable \<lparr>AIRTABLE_API_KEY = None, AIRTABLE_BASE_ID = None\<rparr>
        (Inr \<lparr>ok = True, json = Inr (JObj [(''id'', JStr ''rec123'')])\<rparr>)
        \<lparr>method = ''PATCH'', body = JObj [(''airtable_record_id'', JStr ''rec1'')]\<rparr>) = []"
  by (simp add: handler_defs)

text \<open>
  Claim C5. When the call of \<open>fetch\<close> was made and the reply is a success (\<open>ok\<close>)
  whose JSON body is an object with an \<open>id\<close>, the response is status 200 with the
  body \<open>{success: true, recordId: id, message: "Form submitted successfully"}\<close>.
\<close>

theorem upstream_success:
  assumes "calls (submitToAirTable env (Inr reply) req) \<noteq> []"
    and "ok reply" and "json reply = Inr (JObj kvs)" and "map_of kvs ''id'' = Some record_id"
  shows "status (sent (submitToAirTable env (Inr reply) req)) = 200
       \<and> content (sent (submitToAirTable env (Inr reply) req)) =
           JsonBody (JObj [(''success'', JBool True),
                           (''recordId'', record_id),
                           (''message'', JStr ''Form submitted successfully'')])"
  using assms(2-4)
  by (simp add: sent_after_call [OF assms(1)] handle_reply_def res_json_def)

theorem upstream_success_witness:
  "calls (submitToAirTable \<lparr>AIRTABLE_API_KEY = Some ''key'', AIRTABLE_BASE_ID = None\<rparr>
        (Inr \<lparr>ok = True, json = Inr (JObj [(''id'', JStr ''rec123'')])\<rparr>)
        \<lparr>method = ''POST'', body = JObj [(''first_name'', JStr ''Ada'')]\<rparr>) \<noteq> []
   \<and> ok \<lparr>ok = True, json = Inr (JObj [(''id'', JStr ''rec123'')])\<rparr>
   \<and> json \<lparr>ok = True, json = Inr (JObj [(''id'', JStr ''rec123'')])\<rparr> =
       Inr (JObj [(''id'', JStr ''rec123'')])
   \<and> map_of [(''id'', JStr ''rec123'')] ''id'' = Some (JStr ''rec123'')
   \<and> status (sent (submitToAirTable \<lparr>AIRTABLE_API_KEY = Some ''key'', AIRTABLE_BASE_ID = None\<rparr>
        (Inr \<lparr>ok = True, json = Inr (JObj [(''id'', JStr ''rec123'')])\<rparr>)
        \<lparr>method = ''POST'', body = JObj [(''first_name'', JStr ''Ada'')]\<rparr>)) = 200
   \<and> content (sent (submitToAirTable \<lparr>AIRTABLE_API_KEY = Some ''key'', AIRTABLE_BASE_ID = None\<rparr>
        (Inr \<lparr>ok = True, json = Inr (JObj [(''id'', JStr ''rec123'')])\<rparr>)
        \<lparr>method = ''POST'', body = JObj [(''first_name'', JStr ''Ada'')]\<rparr>)) =
       JsonBody (JObj [(''success'', JBool True),
                       (''recordId'', JStr ''rec123''),
                       (''message'', JStr ''Form submitted successfully'')])"
  using upstream_success [of "\<lparr>AIRTABLE_API_KEY = Some ''key'', AIRTABLE_BASE_ID = None\<rparr>"
      "\<lparr>ok = True, json = Inr (JObj [(''id'', JStr ''rec123'')])\<rparr>"
      "\<lparr>method = ''POST'', body = JObj [(''first_name'', JStr ''Ada'')]\<rparr>"
      "[(''id'', JStr ''rec123'')]" "JStr ''rec123''"]
  by (simp add: handler_defs payload_defs)

text \<open>
  Claim C4, as amended. When the call of \<open>fetch\<close> was made and the reply is no success
  with a JSON body: if \<open>error.message\<close> of the body is a non-empty string, the
  response is status 500 with \<open>{success: false, error: message}\<close>; if the body is not
  \<open>null\<close> and its \<open>error.message\<close> is absent (or empty, or another falsy value),
  the response is status 500 with the error \<open>Failed to submit to AirTable\<close>.
\<close>

theorem upstream_error:
  assumes "calls (submitToAirTable env (Inr reply) req) \<noteq> []"
    and "\<not> ok reply" and "json reply = Inr errorData"
  shows "(opt_prop (read_prop errorData ''error'') ''message'' = JStr m \<and> m \<noteq> [] \<longrightarrow>
            status (sent (submitToAirTable env (Inr reply) req)) = 500
          \<and> content (sent (submitToAirTable env (Inr reply) req)) =
              JsonBody (JObj [(''success'', JBool False), (''error'', JStr m)]))
       \<and> (errorData \<noteq> JUndefined \<and> errorData \<noteq> JNull
          \<and> \<not> truthy (opt_prop (read_prop errorData ''error'') ''message'') \<longrightarrow>
            status (sent (submitToAirTable env (Inr reply) req)) = 500
          \<and> content (sent (submitToAirTable env (Inr reply) req)) =
              JsonBody (JObj [(''success'', JBool False),
                              (''error'', JStr ''Failed to submit to AirTable'')]))"
proof (rule conjI; rule impI)
  assume a: "opt_prop (read_prop errorData ''error'') ''message'' = JStr m \<and> m \<noteq> []"
  then have "read_prop errorData ''error'' \<noteq> JUndefined"
    by (auto simp: opt_prop_def)
  then have "errorData \<noteq> JUndefined" "errorData \<noteq> JNull"
    by (auto simp: read_prop_def)
  then have g: "get_prop errorData ''error'' = Inr (read_prop errorData ''error'')"
    by (rule get_prop_readable)
  from a g assms(2,3)
  show "status (sent (submitToAirTable env (Inr reply) req)) = 500
          \<and> content (sent (submitToAirTable env (Inr reply) req)) =
              JsonBody (JObj [(''success'', JBool False), (''error'', JStr m)])"
    by (simp add: sent_after_call [OF assms(1)] handle_reply_def catch_block_def res_json_def
        js_or_def)
next
  assume a: "errorData \<noteq> JUndefined \<and> errorData \<noteq> JNull
          \<and> \<not> truthy (opt_prop (read_prop errorData ''error'') ''message'')"
  then have g: "get_prop errorData ''error'' = Inr (read_prop errorData ''error'')"
    by (simp add: get_prop_readable)
  from a g assms(2,3)
  show "status (sent (submitToAirTable env (Inr reply) req)) = 500
          \<and> content (sent (submitToAirTable env (Inr reply) req)) =
              JsonBody (JObj [(''success'', JBool False),
                              (''error'', JStr ''Failed to submit to AirTable'')])"
    by (simp add: sent_after_call [OF assms(1)] handle_reply_def catch_block_def res_json_def
        js_or_def)
qed

theorem upstream_error_witness:
  "calls (submitToAirTable \<lparr>AIRTABLE_API_KEY = Some ''key'', AIRTABLE_BASE_ID = None\<rparr>
        (Inr \<lparr>ok = False, json = Inr (JObj [(''error'', JObj [(''message'', JStr ''Invalid field'')])])\<rparr>)
        \<lparr>method = ''POST'', body = JObj [(''first_name'', JStr ''Ada'')]\<rparr>) \<noteq> []
   \<and> opt_prop (read_prop (JObj [(''error'', JObj [(''message'', JStr ''Invalid field'')])])
        ''error'') ''message'' = JStr ''Invalid field''
   \<and> ''Invalid field'' \<noteq> []
   \<and> status (sent (submitToAirTable \<lparr>AIRTABLE_API_KEY = Some ''key'', AIRTABLE_BASE_ID = None\<rparr>
        (Inr \<lparr>ok = False, json = Inr (JObj [(''error'', JObj [(''message'', JStr ''Invalid field'')])])\<rparr>)
        \<lparr>method = ''POST'', body = JObj [(''first_name'', JStr ''Ada'')]\<rparr>)) = 500
   \<and> content (sent (submitToAirTable \<lparr>AIRTABLE_API_KEY = Some ''key'', AIRTABLE_BASE_ID = None\<rparr>
        (Inr \<lparr>ok = False, json = Inr (JObj [(''error'', JObj [(''message'', JStr ''Invalid field'')])])\<rparr>)
        \<lparr>method = ''POST'', body = JObj [(''first_name'', JStr ''Ada'')]\<rparr>)) =
       JsonBody (JObj [(''success'', JBool False), (''error'', JStr ''Invalid field'')])
   \<and> calls (submitToAirTable \<lparr>AIRTABLE_API_KEY = Some ''key'', AIRTABLE_BASE_ID = None\<rparr>
        (Inr \<lparr>ok = False, json = Inr (JObj [(''error'', JObj [(''type'', JStr ''NOT_FOUND'')])])\<rparr>)
        \<lparr>method = ''POST'', body = JObj [(''first_name'', JStr ''Ada'')]\<rparr>) \<noteq> []
   \<and> \<not> truthy (opt_prop (read_prop (JObj [(''error'', JObj [(''type'', JStr ''NOT_FOUND'')])])
        ''error'') ''message'')
   \<and> status (sent (submitToAirTable \<lparr>AIRTABLE_API_KEY = Some ''key'', AIRTABLE_BASE_ID = None\<rparr>
        (Inr \<lparr>ok = False, json = Inr (JObj [(''error'', JObj [(''type'', JStr ''NOT_FOUND'')])])\<rparr>)
        \<lparr>method = ''POST'', body = JObj [(''first_name'', JStr ''Ada'')]\<rparr>)) = 500
   \<and> content (sent (submitToAirTable \<lparr>AIRTABLE_API_KEY = Some ''key'', AIRTABLE_BASE_ID = None\<rparr>
        (Inr \<lparr>ok = False, json = Inr (JObj [(''error'', JObj [(''type'', JStr ''NOT_FOUND'')])])\<rparr>)
        \<lparr>method = ''POST'', body = JObj [(''first_name'', JStr ''Ada'')]\<rparr>)) =
       JsonBody (JObj [(''success'', JBool False),
                       (''error'', JStr ''Failed to submit to AirTable'')])"
  using upstream_error [of "\<lparr>AIRTABLE_API_KEY = Some ''key'', AIRTABLE_BASE_ID = None\<rparr>"
      "\<lparr>ok = False, json = Inr (JObj [(''error'', JObj [(''message'', JStr ''Invalid field'')])])\<rparr>"
      "\<lparr>method = ''POST'', body = JObj [(''first_name'', JStr ''Ada'')]\<rparr>"
      "JObj [(''error'', JObj [(''message'', JStr ''Invalid field'')])]" "''Invalid field''"]
    upstream_error [of "\<lparr>AIRTABLE_API_KEY = Some ''key'', AIRTABLE_BASE_ID = None\<rparr>"
      "\<lparr>ok = False, json = Inr (JObj [(''error'', JObj [(''type'', JStr ''NOT_FOUND'')])])\<rparr>"
      "\<lparr>method = ''POST'', body = JObj [(''first_name'', JStr ''Ada'')]\<rparr>"
      "JObj [(''error'', JObj [(''type'', JStr ''NOT_FOUND'')])]" "''Invalid field''"]
  by (simp add: handler_defs payload_defs)

text \<open>
  Claim C4 as it is written fails on two error bodies. The body \<open>null\<close> carries no
  \<open>error.message\<close>, and the error of the response is the message of the TypeError
  that \<open>errorData.error\<close> throws, not the fallback. The body
  \<open>{"error": {"message": ""}}\<close> carries a message, and the error of the response is
  the fallback, not that message.
\<close>

theorem upstream_error_counterexample:
  "calls (submitToAirTable \<lparr>AIRTABLE_API_KEY = Some ''key'', AIRTABLE_BASE_ID = None\<rparr>
        (Inr \<lparr>ok = False, json = Inr JNull\<rparr>)
        \<lparr>method = ''POST'', body = JObj [(''first_name'', JStr ''Ada'')]\<rparr>) \<noteq> []
   \<and> content (sent (submitToAirTable \<lparr>AIRTABLE_API_KEY = Some ''key'', AIRTABLE_BASE_ID = None\<rparr>
        (Inr \<lparr>ok = False, json = Inr JNull\<rparr>)
        \<lparr>method = ''POST'', body = JObj [(''first_name'', JStr ''Ada'')]\<rparr>)) =
       JsonBody (JObj [(''success'', JBool False),
         (''error'', JStr (''Cannot read properties of null (reading ''
                            @ [CHR 0x27] @ ''error'' @ [CHR 0x27] @ '')''))])
   \<and> calls (submitToAirTable \<lparr>AIRTABLE_API_KEY = Some ''key'', AIRTABLE_BASE_ID = None\<rparr>
        (Inr \<lparr>ok = False, json = Inr (JObj [(''error'', JObj [(''message'', JStr [])])])\<rparr>)
        \<lparr>method = ''POST'', body = JObj [(''first_name'', JStr ''Ada'')]\<rparr>) \<noteq> []
   \<and> content (sent (submitToAirTable \<lparr>AIRTABLE_API_KEY = Some ''key'', AIRTABLE_BASE_ID = None\<rparr>
        (Inr \<lparr>ok = False, json = Inr (JObj [(''error'', JObj [(''message'', JStr [])])])\<rparr>)
        \<lparr>method = ''POST'', body = JObj [(''first_name'', JStr ''Ada'')]\<rparr>)) =
       JsonBody (JObj [(''success'', JBool False),
                       (''error'', JStr ''Failed to submit to AirTable'')])"
  by (simp add: handler_defs payload_defs)

end
